theory Spec2Isabelle
  imports Main "HOL-Library.Word"
begin

section \<open>Shared data model\<close>

text \<open>
  A Go \<open>error\<close> value is the sentinel \<open>peers.ErrNodeNotFound\<close>, an error
  identified by its message, or an error wrapped by \<open>fmt.Errorf\<close> with \<open>%w\<close>
  under a prefix; \<open>None\<close> is \<open>nil\<close>.
  A netip address is kept in its textual form, the zero \<open>netip.Addr\<close> apart.
  A WireGuard key is kept as the text \<open>Key.String()\<close> renders.
\<close>

datatype go_error = ErrNodeNotFound | Err string | Wrapped string go_error

datatype Addr = ZeroAddr | IP string

fun Addr_IsValid :: "Addr \<Rightarrow> bool" where
  "Addr_IsValid ZeroAddr = False"
| "Addr_IsValid (IP s) = True"

fun Addr_String :: "Addr \<Rightarrow> string" where
  "Addr_String ZeroAddr = ''invalid IP''"
| "Addr_String (IP s) = s"

fun Addr_BitLen :: "Addr \<Rightarrow> int" where
  "Addr_BitLen ZeroAddr = 0"
| "Addr_BitLen (IP s) = (if CHR '':'' \<in> set s then 128 else 32)"

record Prefix =
  pfx_ip :: Addr
  pfx_bits :: int

definition zero_Prefix :: Prefix where
  "zero_Prefix = \<lparr>pfx_ip = ZeroAddr, pfx_bits = 0\<rparr>"

definition Prefix_IsValid :: "Prefix \<Rightarrow> bool" where
  "Prefix_IsValid p \<longleftrightarrow>
     Addr_IsValid (pfx_ip p) \<and> 0 \<le> pfx_bits p \<and> pfx_bits p \<le> Addr_BitLen (pfx_ip p)"

definition Prefix_Addr :: "Prefix \<Rightarrow> Addr" where
  "Prefix_Addr p = pfx_ip p"

type_synonym Key = string

record Node =
  ID :: string
  PublicKey :: Key
  PrimaryEndpoint :: Addr
  Endpoints :: "Addr list"
  PrivateIPv4 :: Prefix
  NetworkIPv6 :: Prefix
  GRPCPort :: int
  RaftPort :: int
  WireguardPort :: int

section \<open>The mesh store observer (package mesh, newObserver)\<close>

type_synonym ServerID = string

datatype ServerSuffrage = Voter | Nonvoter | Staging

record raft_Server =
  Suffrage :: ServerSuffrage
  Server_ID :: ServerID
  Address :: string

text \<open>
  The observations the callback switches on; every other payload of
  \<open>raft.Observation\<close> falls through the type switch.
\<close>

datatype Observation =
    FailedHeartbeatObservation ServerID
  | ResumedHeartbeatObservation ServerID
  | PeerObservation bool raft_Server
  | LeaderObservation ServerID
  | OtherObservation

datatype WatchEvent =
    WATCH_EVENT_NODE_JOIN
  | WATCH_EVENT_NODE_LEAVE
  | WATCH_EVENT_LEADER_CHANGE

datatype ClusterStatus =
    CLUSTER_STATUS_UNKNOWN
  | CLUSTER_LEADER
  | CLUSTER_VOTER
  | CLUSTER_NON_VOTER

record MeshNode =
  mn_node :: Node
  cluster_status :: ClusterStatus

text \<open>
  Modelled from the spec: \<open>Node.Proto\<close> is not among the sources; the event carries
  the node's serialized form and the \<open>cluster_status\<close> it is given.
\<close>

definition Proto :: "Node \<Rightarrow> ClusterStatus \<Rightarrow> MeshNode" where
  "Proto n st = \<lparr>mn_node = n, cluster_status = st\<rparr>"

record Event =
  ev_Type :: WatchEvent
  ev_Node :: MeshNode

text \<open>
  What one run of the callback does to the outside, in program order: the collaborator
  calls it issues and the lines it logs (level and message).
\<close>

datatype Effect =
    LogDebug string
  | LogInfo string
  | LogWarn string
  | Call_RemoveServer string bool
  | Call_peers_Delete string
  | Call_RefreshPeers
  | Call_peers_Get string
  | Call_Emit Event

text \<open>
  The fields of \<open>meshStore\<close> the callback reads, and the answers of the collaborators
  it calls. Go's \<open>int\<close> is taken as 64 bits wide.
\<close>

record meshStore =
  HeartbeatPurgeThreshold :: "64 word"
  raft_IsLeader :: bool
  raft_RemoveServer :: "string \<Rightarrow> bool \<Rightarrow> go_error option"
  Storage_peers_Delete :: "string \<Rightarrow> go_error option"
  Storage_peers_Get :: "string \<Rightarrow> go_error + Node"
  testStore :: bool
  nodeID :: string
  nw_RefreshPeers :: "go_error option"
  plugins_HasWatchers :: bool
  plugins_Emit :: "Event \<Rightarrow> go_error option"

text \<open>The \<open>failedHeartBeats\<close> map; reading a missing key gives 0, as a Go map does.\<close>

type_synonym heartbeats = "ServerID \<rightharpoonup> 64 word"

definition counter :: "heartbeats \<Rightarrow> ServerID \<Rightarrow> 64 word" where
  "counter m pid = (case m pid of None \<Rightarrow> 0 | Some c \<Rightarrow> c)"

definition peer_event_type :: "bool \<Rightarrow> WatchEvent" where
  "peer_event_type removed =
     (if removed then WATCH_EVENT_NODE_LEAVE else WATCH_EVENT_NODE_JOIN)"

definition peer_cluster_status :: "bool \<Rightarrow> ServerSuffrage \<Rightarrow> ClusterStatus" where
  "peer_cluster_status removed suffrage =
     (if removed then CLUSTER_STATUS_UNKNOWN
      else if suffrage = Nonvoter then CLUSTER_NON_VOTER
      else CLUSTER_VOTER)"

definition received :: "Effect list" where
  "received = [LogDebug ''received observation event'']"

fun observer :: "meshStore \<Rightarrow> heartbeats \<Rightarrow> Observation \<Rightarrow> heartbeats \<times> Effect list" where
  "observer s fhb (FailedHeartbeatObservation pid) =
     (if sint (HeartbeatPurgeThreshold s) \<le> 0 then (fhb, received)
      else
        let fhb1 = fhb(pid \<mapsto> counter fhb pid + 1);
            out1 = received @ [LogDebug ''failed heartbeat'']
        in if sint (HeartbeatPurgeThreshold s) \<le> sint (counter fhb1 pid) \<and> raft_IsLeader s
           then
             let out2 = out1 @ [LogInfo ''failed heartbeat threshold reached, removing peer'',
                                Call_RemoveServer pid True]
             in (case raft_RemoveServer s pid True of
                   Some err \<Rightarrow> (fhb1, out2 @ [LogWarn ''failed to remove peer''])
                 | None \<Rightarrow>
                     let out3 = out2 @ [Call_peers_Delete pid] @
                           (case Storage_peers_Delete s pid of
                              Some err \<Rightarrow> [LogWarn ''failed to remove peer from database'']
                            | None \<Rightarrow> [])
                     in (fhb1(pid := None), out3))
           else (fhb1, out1))"
| "observer s fhb (ResumedHeartbeatObservation pid) =
     (if 0 < sint (HeartbeatPurgeThreshold s) then (fhb(pid := None), received)
      else (fhb, received))"
| "observer s fhb (PeerObservation removed peer) =
     (if testStore s then (fhb, received)
      else if Server_ID peer = nodeID s then (fhb, received)
      else
        let out1 = received @ [Call_RefreshPeers] @
              (case nw_RefreshPeers s of
                 Some err \<Rightarrow> [LogWarn ''wireguard refresh peers'']
               | None \<Rightarrow> [])
        in if plugins_HasWatchers s
           then
             (case Storage_peers_Get s (Server_ID peer) of
                Inl err \<Rightarrow>
                  (fhb, out1 @ [Call_peers_Get (Server_ID peer),
                                LogWarn ''failed to lookup peer, can't emit event''])
              | Inr node \<Rightarrow>
                  let ev = \<lparr>ev_Type = peer_event_type removed,
                            ev_Node = Proto node (peer_cluster_status removed (Suffrage peer))\<rparr>
                  in (fhb, out1 @ [Call_peers_Get (Server_ID peer), Call_Emit ev] @
                       (case plugins_Emit s ev of
                          Some err \<Rightarrow> [LogWarn ''error sending node join/leave event'']
                        | None \<Rightarrow> [])))
           else (fhb, out1))"
| "observer s fhb (LeaderObservation leader) =
     (if plugins_HasWatchers s
      then
        (case Storage_peers_Get s leader of
           Inl err \<Rightarrow>
             (fhb, received @ [Call_peers_Get leader,
                LogWarn ''failed to get leader, may be fresh cluster, can't emit event''])
         | Inr node \<Rightarrow>
             let ev = \<lparr>ev_Type = WATCH_EVENT_LEADER_CHANGE,
                       ev_Node = Proto node CLUSTER_LEADER\<rparr>
             in (fhb, received @ [Call_peers_Get leader, Call_Emit ev] @
                  (case plugins_Emit s ev of
                     Some err \<Rightarrow> [LogWarn ''error sending leader change event'']
                   | None \<Rightarrow> [])))
      else (fhb, received))"
| "observer s fhb OtherObservation = (fhb, received)"

text \<open>
  The callback is one closure over the map: successive observations run it on the map the
  previous run left.
\<close>

fun run :: "meshStore \<Rightarrow> heartbeats \<Rightarrow> Observation list \<Rightarrow> heartbeats \<times> Effect list" where
  "run s fhb [] = (fhb, [])"
| "run s fhb (ev # evs) =
     (case observer s fhb ev of
        (fhb1, out1) \<Rightarrow>
          (case run s fhb1 evs of
             (fhb2, out2) \<Rightarrow> (fhb2, out1 @ out2)))"

text \<open>Projections of a run: the collaborator calls, the events emitted, the warnings.\<close>

fun is_call :: "Effect \<Rightarrow> bool" where
  "is_call (LogDebug m) = False"
| "is_call (LogInfo m) = False"
| "is_call (LogWarn m) = False"
| "is_call e = True"

definition calls :: "Effect list \<Rightarrow> Effect list" where
  "calls out = filter is_call out"

fun emitted :: "Effect list \<Rightarrow> Event list" where
  "emitted [] = []"
| "emitted (Call_Emit ev # out) = ev # emitted out"
| "emitted (e # out) = emitted out"

fun warnings :: "Effect list \<Rightarrow> string list" where
  "warnings [] = []"
| "warnings (LogWarn m # out) = m # warnings out"
| "warnings (e # out) = warnings out"

section \<open>The Join RPC (package node, Server.Join)\<close>

subsection \<open>Rendering of numbers and addresses\<close>

fun Uitoa :: "nat \<Rightarrow> string" where
  "Uitoa n = (if n < 10 then [''0123456789'' ! n]
              else Uitoa (n div 10) @ [''0123456789'' ! (n mod 10)])"

declare Uitoa.simps [simp del]

definition Itoa :: "int \<Rightarrow> string" where
  "Itoa i = (if i < 0 then CHR ''-'' # Uitoa (nat (- i)) else Uitoa (nat i))"

text \<open>\<open>net.JoinHostPort\<close>: a host with a colon in it is taken for an IPv6 literal.\<close>

definition JoinHostPort :: "string \<Rightarrow> string \<Rightarrow> string" where
  "JoinHostPort host port =
     (if CHR '':'' \<in> set host then ''['' @ host @ '']:'' @ port
      else host @ '':'' @ port)"

definition Prefix_String :: "Prefix \<Rightarrow> string" where
  "Prefix_String p =
     (if \<not> Prefix_IsValid p then ''invalid Prefix''
      else Addr_String (pfx_ip p) @ ''/'' @ Itoa (pfx_bits p))"

text \<open>\<open>netip.AddrPortFrom(a, uint16(port)).String()\<close>; the conversion keeps the low 16 bits.\<close>

definition AddrPort_String :: "Addr \<Rightarrow> int \<Rightarrow> string" where
  "AddrPort_String a port =
     (case a of
        ZeroAddr \<Rightarrow> ''invalid AddrPort''
      | IP t \<Rightarrow>
          if CHR '':'' \<in> set t then ''['' @ t @ '']:'' @ Uitoa (nat (port mod 65536))
          else t @ '':'' @ Uitoa (nat (port mod 65536)))"

subsection \<open>Requests, responses, status codes\<close>

datatype Code =
    OK
  | InvalidArgument
  | FailedPrecondition
  | PermissionDenied
  | NotFound
  | Internal

text \<open>
  A gRPC status: the code, the message (or its format string) and, for
  \<open>status.Errorf\<close>, the error formatted into it.
\<close>

record Status =
  code :: Code
  message :: string
  cause :: "go_error option"

definition Error :: "Code \<Rightarrow> string \<Rightarrow> Status" where
  "Error c m = \<lparr>code = c, message = m, cause = None\<rparr>"

definition Errorf :: "Code \<Rightarrow> string \<Rightarrow> go_error \<Rightarrow> Status" where
  "Errorf c m err = \<lparr>code = c, message = m, cause = Some err\<rparr>"

record JoinRequest =
  Id :: string
  req_PublicKey :: string
  req_PrimaryEndpoint :: string
  req_Endpoints :: "string list"
  req_GrpcPort :: int
  req_RaftPort :: int
  req_WireguardPort :: int
  AssignIpv4 :: bool
  PreferRaftIpv6 :: bool
  AsVoter :: bool

record WireguardPeer =
  wp_Id :: string
  wp_PublicKey :: string
  wp_PrimaryEndpoint :: string
  wp_Endpoints :: "string list"
  wp_AddressIpv4 :: string
  wp_AddressIpv6 :: string

record JoinResponse =
  NetworkIpv6 :: string
  AddressIpv4 :: string
  Peers :: "WireguardPeer list"

record CreateOptions =
  co_ID :: string
  co_PublicKey :: Key
  co_PrimaryEndpoint :: Addr
  co_Endpoints :: "Addr list"
  co_NetworkIPv6 :: Prefix
  co_GRPCPort :: int
  co_RaftPort :: int
  co_WireguardPort :: int

text \<open>What one run of \<open>Join\<close> does to the outside, in program order.\<close>

datatype JoinEffect =
    Info string
  | Warn string
  | GetULAPrefix_call
  | Get_call string
  | Update_call Node
  | Random64_call Prefix
  | Create_call CreateOptions
  | Acquire_call string
  | ListPeers_call string
  | AddVoter_call string string
  | AddNonVoter_call string string
  | RefreshWireguardPeers_call

text \<open>
  The server: its cached prefix, and the answers of the collaborators and library
  functions \<open>Join\<close> calls (\<open>wgtypes.ParseKey\<close>, \<open>netip.ParseAddr\<close>,
  \<open>util.Random64\<close>, the peers registry, the IPAM, the store).
  \<open>GetULAPrefix\<close> answers with a pair, as the assignment in the source stores the
  prefix whatever the error is.
\<close>

record node_Server =
  store_IsLeader :: bool
  ulaPrefix :: Prefix
  meshstate_GetULAPrefix :: "Prefix \<times> go_error option"
  wgtypes_ParseKey :: "string \<Rightarrow> go_error + Key"
  netip_ParseAddr :: "string \<Rightarrow> go_error + Addr"
  peers_Get :: "string \<Rightarrow> go_error + Node"
  peers_Update :: "Node \<Rightarrow> go_error + Node"
  util_Random64 :: "Prefix \<Rightarrow> go_error + Prefix"
  peers_Create :: "CreateOptions \<Rightarrow> go_error + Node"
  ipam_Acquire :: "string \<Rightarrow> go_error + Prefix"
  peers_ListPeers :: "string \<Rightarrow> go_error + Node list"
  store_AddVoter :: "string \<Rightarrow> string \<Rightarrow> go_error option"
  store_AddNonVoter :: "string \<Rightarrow> string \<Rightarrow> go_error option"
  store_RefreshWireguardPeers :: "go_error option"

subsection \<open>The steps of Join, in the order of the source\<close>

text \<open>A Go call returns, or panics with a message.\<close>

datatype 'r call = Returns 'r | Panic string

text \<open>
  \<open>cmp.Equal\<close> of go-cmp, called without options on two \<open>[]netip.Addr\<close>. It
  compares elements only where both slices have some, and then panics:
  \<open>netip.Addr\<close> is a struct of unexported fields with no \<open>Equal\<close> method.
  Where a slice has no element, the slices are equal exactly when neither has one (a nil
  and an empty slice are both the empty list here).
\<close>

definition cmp_Equal :: "Addr list \<Rightarrow> Addr list \<Rightarrow> bool call" where
  "cmp_Equal xs ys =
     (if xs \<noteq> [] \<and> ys \<noteq> []
      then Panic ''cannot handle unexported field''
      else Returns (xs = [] \<and> ys = []))"

text \<open>The lazy resolution of the prefix, which comes right after the leader check.\<close>

definition resolve_ulaPrefix :: "node_Server \<Rightarrow> node_Server \<times> JoinEffect list \<times> Status option" where
  "resolve_ulaPrefix s =
     (if \<not> Prefix_IsValid (ulaPrefix s)
      then
        (case meshstate_GetULAPrefix s of
           (p, Some err) \<Rightarrow>
             (s\<lparr>ulaPrefix := p\<rparr>, [GetULAPrefix_call],
              Some (Errorf Internal ''failed to get ULA prefix: %v'' err))
         | (p, None) \<Rightarrow> (s\<lparr>ulaPrefix := p\<rparr>, [GetULAPrefix_call], None))
      else (s, [], None))"

fun parse_endpoints :: "(string \<Rightarrow> go_error + Addr) \<Rightarrow> string list \<Rightarrow> go_error + Addr list" where
  "parse_endpoints P [] = Inr []"
| "parse_endpoints P (e # es) =
     (case P e of
        Inl err \<Rightarrow> Inl err
      | Inr a \<Rightarrow>
          (case parse_endpoints P es of
             Inl err \<Rightarrow> Inl err
           | Inr as \<Rightarrow> Inr (a # as)))"

record Inputs =
  publicKey :: Key
  primaryEndpoint :: Addr
  endpoints :: "Addr list"

definition validate_inputs :: "node_Server \<Rightarrow> JoinRequest \<Rightarrow> Status + Inputs" where
  "validate_inputs s req =
     (if Id req = [] then Inl (Error InvalidArgument ''node id required'')
      else
        case wgtypes_ParseKey s (req_PublicKey req) of
          Inl err \<Rightarrow> Inl (Errorf InvalidArgument ''invalid public key: %v'' err)
        | Inr k \<Rightarrow>
            (case (if req_PrimaryEndpoint req \<noteq> []
                   then netip_ParseAddr s (req_PrimaryEndpoint req)
                   else Inr ZeroAddr) of
               Inl err \<Rightarrow> Inl (Errorf InvalidArgument ''invalid primary endpoint: %v'' err)
             | Inr pe \<Rightarrow>
                 (case parse_endpoints (netip_ParseAddr s) (req_Endpoints req) of
                    Inl err \<Rightarrow> Inl (Errorf InvalidArgument ''invalid endpoint: %v'' err)
                  | Inr es \<Rightarrow>
                      Inr \<lparr>publicKey = k, primaryEndpoint = pe, endpoints = es\<rparr>)))"

text \<open>The field by field update of a peer that already exists.\<close>

definition update_fields :: "JoinRequest \<Rightarrow> Inputs \<Rightarrow> Node \<Rightarrow> Node call" where
  "update_fields req inp peer =
     (let p1 = (if PublicKey peer \<noteq> publicKey inp
                then peer\<lparr>PublicKey := publicKey inp\<rparr> else peer);
          p2 = (if GRPCPort p1 \<noteq> req_GrpcPort req
                then p1\<lparr>GRPCPort := req_GrpcPort req\<rparr> else p1);
          p3 = (if RaftPort p2 \<noteq> req_RaftPort req
                then p2\<lparr>RaftPort := req_RaftPort req\<rparr> else p2);
          p4 = (if WireguardPort p3 \<noteq> req_WireguardPort req
                then p3\<lparr>WireguardPort := req_WireguardPort req\<rparr> else p3);
          p5 = (if Addr_IsValid (primaryEndpoint inp) \<and>
                   Addr_String (primaryEndpoint inp) \<noteq> Addr_String (PrimaryEndpoint p4)
                then p4\<lparr>PrimaryEndpoint := primaryEndpoint inp\<rparr> else p4)
      in (case cmp_Equal (Endpoints p5) (endpoints inp) of
            Panic m \<Rightarrow> Panic m
          | Returns eq \<Rightarrow>
              Returns (if \<not> eq then p5\<lparr>Endpoints := endpoints inp\<rparr> else p5)))"

definition upsert_peer ::
  "node_Server \<Rightarrow> JoinRequest \<Rightarrow> Inputs \<Rightarrow> JoinEffect list \<times> (Status + Node) call" where
  "upsert_peer s req inp =
     (case peers_Get s (Id req) of
        Inr peer \<Rightarrow>
          (case update_fields req inp peer of
             Panic m \<Rightarrow>
               ([Get_call (Id req), Info ''peer already exists, checking for updates''],
                Panic m)
           | Returns peer' \<Rightarrow>
               (let out = [Get_call (Id req), Info ''peer already exists, checking for updates'',
                           Update_call peer']
                in case peers_Update s peer' of
                     Inl err \<Rightarrow>
                       (out, Returns (Inl (Errorf Internal ''failed to update peer: %v'' err)))
                   | Inr updated \<Rightarrow> (out, Returns (Inr updated))))
      | Inl err \<Rightarrow>
          if err \<noteq> ErrNodeNotFound
          then ([Get_call (Id req)],
                Returns (Inl (Errorf Internal ''failed to get peer: %v'' err)))
          else
            (let out = [Get_call (Id req), Info ''registering new peer'',
                        Random64_call (ulaPrefix s)]
             in case util_Random64 s (ulaPrefix s) of
                  Inl err \<Rightarrow>
                    (out,
                     Returns (Inl (Errorf Internal ''failed to generate IPv6 address: %v'' err)))
                | Inr networkIPv6 \<Rightarrow>
                    (let opts = \<lparr>co_ID = Id req, co_PublicKey = publicKey inp,
                                 co_PrimaryEndpoint = primaryEndpoint inp,
                                 co_Endpoints = endpoints inp,
                                 co_NetworkIPv6 = networkIPv6,
                                 co_GRPCPort = req_GrpcPort req,
                                 co_RaftPort = req_RaftPort req,
                                 co_WireguardPort = req_WireguardPort req\<rparr>
                     in case peers_Create s opts of
                          Inl err \<Rightarrow>
                            (out @ [Create_call opts],
                             Returns (Inl (Errorf Internal ''failed to create peer: %v'' err)))
                        | Inr created \<Rightarrow> (out @ [Create_call opts], Returns (Inr created)))))"

text \<open>The lease stays the zero prefix unless the request asks for an IPv4 address.\<close>

definition acquire_lease :: "node_Server \<Rightarrow> JoinRequest \<Rightarrow> JoinEffect list \<times> (Status + Prefix)" where
  "acquire_lease s req =
     (if AssignIpv4 req
      then
        (case ipam_Acquire s (Id req) of
           Inl err \<Rightarrow>
             ([Info ''assigning IPv4 address to peer'', Acquire_call (Id req)],
              Inl (Errorf Internal ''failed to assign IPv4: %v'' err))
         | Inr lease \<Rightarrow>
             ([Info ''assigning IPv4 address to peer'', Acquire_call (Id req),
               Info ''assigned IPv4 address to peer''], Inr lease))
      else ([], Inr zero_Prefix))"

definition raftAddress :: "JoinRequest \<Rightarrow> Prefix \<Rightarrow> Node \<Rightarrow> string" where
  "raftAddress req lease peer =
     (if AssignIpv4 req \<and> \<not> PreferRaftIpv6 req
      then JoinHostPort (Addr_String (Prefix_Addr lease)) (Itoa (RaftPort peer))
      else JoinHostPort (Addr_String (Prefix_Addr (NetworkIPv6 peer))) (Itoa (RaftPort peer)))"

definition add_to_cluster :: "node_Server \<Rightarrow> JoinRequest \<Rightarrow> string \<Rightarrow> JoinEffect list \<times> Status option" where
  "add_to_cluster s req addr =
     (if AsVoter req
      then
        (case store_AddVoter s (Id req) addr of
           Some err \<Rightarrow>
             ([Info ''adding candidate to cluster'', AddVoter_call (Id req) addr],
              Some (Errorf Internal ''failed to add candidate: %v'' err))
         | None \<Rightarrow> ([Info ''adding candidate to cluster'', AddVoter_call (Id req) addr], None))
      else
        (case store_AddNonVoter s (Id req) addr of
           Some err \<Rightarrow>
             ([Info ''adding non-voter to cluster'', AddNonVoter_call (Id req) addr],
              Some (Errorf Internal ''failed to add non-voter: %v'' err))
         | None \<Rightarrow> ([Info ''adding non-voter to cluster'', AddNonVoter_call (Id req) addr], None)))"

definition render_peer :: "Node \<Rightarrow> WireguardPeer" where
  "render_peer peer =
     \<lparr>wp_Id = ID peer,
      wp_PublicKey = PublicKey peer,
      wp_PrimaryEndpoint =
        (if Addr_IsValid (PrimaryEndpoint peer)
         then AddrPort_String (PrimaryEndpoint peer) (WireguardPort peer) else []),
      wp_Endpoints = map (\<lambda>e. AddrPort_String e (WireguardPort peer)) (Endpoints peer),
      wp_AddressIpv4 =
        (if Prefix_IsValid (PrivateIPv4 peer) then Prefix_String (PrivateIPv4 peer) else []),
      wp_AddressIpv6 =
        (if Prefix_IsValid (NetworkIPv6 peer) then Prefix_String (NetworkIPv6 peer) else [])\<rparr>"

text \<open>The deferred refresh runs when the function returns after the cluster change.\<close>

definition deferred_refresh :: "node_Server \<Rightarrow> JoinEffect list" where
  "deferred_refresh s =
     (case store_RefreshWireguardPeers s of
        Some err \<Rightarrow> [RefreshWireguardPeers_call, Warn ''failed to refresh wireguard peers'']
      | None \<Rightarrow> [RefreshWireguardPeers_call])"

definition Join ::
  "node_Server \<Rightarrow> JoinRequest \<Rightarrow>
     node_Server \<times> JoinEffect list \<times> (Status + JoinResponse) call" where
  "Join s req =
     (if \<not> store_IsLeader s
      then (s, [], Returns (Inl (Error FailedPrecondition ''not leader'')))
      else
        case resolve_ulaPrefix s of
          (s1, out0, Some st) \<Rightarrow> (s1, out0, Returns (Inl st))
        | (s1, out0, None) \<Rightarrow>
            (case validate_inputs s1 req of
               Inl st \<Rightarrow> (s1, out0, Returns (Inl st))
             | Inr inp \<Rightarrow>
                 (case upsert_peer s1 req inp of
                    (out1, Panic m) \<Rightarrow> (s1, out0 @ out1, Panic m)
                  | (out1, Returns (Inl st)) \<Rightarrow> (s1, out0 @ out1, Returns (Inl st))
                  | (out1, Returns (Inr peer)) \<Rightarrow>
                      (case acquire_lease s1 req of
                         (out2, Inl st) \<Rightarrow> (s1, out0 @ out1 @ out2, Returns (Inl st))
                       | (out2, Inr lease) \<Rightarrow>
                           (case peers_ListPeers s1 (Id req) of
                              Inl err \<Rightarrow>
                                (s1, out0 @ out1 @ out2 @ [ListPeers_call (Id req)],
                                 Returns (Inl (Errorf Internal ''failed to list peers: %v'' err)))
                            | Inr peers \<Rightarrow>
                                (case add_to_cluster s1 req (raftAddress req lease peer) of
                                   (out3, Some st) \<Rightarrow>
                                     (s1, out0 @ out1 @ out2 @ [ListPeers_call (Id req)] @ out3,
                                      Returns (Inl st))
                                 | (out3, None) \<Rightarrow>
                                     (s1,
                                      out0 @ out1 @ out2 @ [ListPeers_call (Id req)] @ out3 @
                                        deferred_refresh s1,
                                      Returns
                                        (Inr \<lparr>NetworkIpv6 = Prefix_String (NetworkIPv6 peer),
                                           AddressIpv4 =
                                             (if AssignIpv4 req then Prefix_String lease else []),
                                           Peers = map render_peer peers\<rparr>))))))))"

section \<open>The admin RPC DeleteNetworkACL (package admin)\<close>

datatype RuleResource = RESOURCE_NETWORK_ACLS

datatype RuleVerb = VERB_DELETE

record Action =
  Resource :: RuleResource
  Verb :: RuleVerb

definition deleteNetworkACLAction :: "Action list" where
  "deleteNetworkACLAction = [\<lparr>Resource = RESOURCE_NETWORK_ACLS, Verb = VERB_DELETE\<rparr>]"

datatype AdminEffect =
    LogError string
  | Evaluate_call "Action list" string
  | DeleteNetworkACL_call string

text \<open>
  The admin server: leadership, the answer of the RBAC evaluator to the actions bound to
  a resource name (\<open>Actions.For\<close>), the answer of \<open>networking.IsSystemNetworkACL\<close>
  (that function is not among the sources and is taken from the environment), and the
  answer of the delegated mutation.
\<close>

record admin_Server =
  Raft_IsLeader :: bool
  rbacEval_Evaluate :: "Action list \<Rightarrow> string \<Rightarrow> bool \<times> go_error option"
  IsSystemNetworkACL :: "string \<Rightarrow> bool"
  networking_DeleteNetworkACL :: "string \<Rightarrow> go_error option"

definition DeleteNetworkACL :: "admin_Server \<Rightarrow> string \<Rightarrow> AdminEffect list \<times> (Status + unit)" where
  "DeleteNetworkACL s name =
     (if \<not> Raft_IsLeader s then ([], Inl (Error FailedPrecondition ''not the leader''))
      else if name = [] then ([], Inl (Error InvalidArgument ''acl name is required''))
      else
        case rbacEval_Evaluate s deleteNetworkACLAction name of
          (ok, err) \<Rightarrow>
            if \<not> ok
            then
              (Evaluate_call deleteNetworkACLAction name #
                 (if err \<noteq> None
                  then [LogError ''failed to evaluate delete network acl action''] else []),
               Inl (Error PermissionDenied
                      ''caller does not have permission to delete network acls''))
            else if IsSystemNetworkACL s name
            then
              ([Evaluate_call deleteNetworkACLAction name],
               Inl (Error InvalidArgument ''cannot delete system network acls''))
            else
              (case networking_DeleteNetworkACL s name of
                 Some e \<Rightarrow>
                   ([Evaluate_call deleteNetworkACLAction name, DeleteNetworkACL_call name],
                    Inl \<lparr>code = Internal, message = [], cause = Some e\<rparr>)
               | None \<Rightarrow>
                   ([Evaluate_call deleteNetworkACLAction name, DeleteNetworkACL_call name],
                    Inr ())))"

definition result_code :: "Status + 'a \<Rightarrow> Code" where
  "result_code r = (case r of Inl st \<Rightarrow> code st | Inr v \<Rightarrow> OK)"

section \<open>The camp fire (package campfire)\<close>

subsection \<open>Go channels\<close>

text \<open>
  A channel value is \<open>None\<close> for the nil channel, or the state of a made channel:
  its buffer, its capacity and whether it is closed. One operation either completes, or
  cannot proceed in this state, or panics.
\<close>

record 'a chan_state =
  buf :: "'a list"
  capacity :: nat
  closed :: bool

type_synonym 'a chan = "'a chan_state option"

datatype 'r outcome = Done 'r | Blocks | Panics string

definition make_chan :: "nat \<Rightarrow> 'a chan" where
  "make_chan n = Some \<lparr>buf = [], capacity = n, closed = False\<rparr>"

definition chan_close :: "'a chan \<Rightarrow> ('a chan) outcome" where
  "chan_close c =
     (case c of
        None \<Rightarrow> Panics ''close of nil channel''
      | Some st \<Rightarrow>
          if closed st then Panics ''close of closed channel''
          else Done (Some (st\<lparr>closed := True\<rparr>)))"

definition chan_send :: "'a chan \<Rightarrow> 'a \<Rightarrow> ('a chan) outcome" where
  "chan_send c v =
     (case c of
        None \<Rightarrow> Blocks
      | Some st \<Rightarrow>
          if closed st then Panics ''send on closed channel''
          else if length (buf st) < capacity st then Done (Some (st\<lparr>buf := buf st @ [v]\<rparr>))
          else Blocks)"

text \<open>A receive yields the value, or \<open>None\<close> from a closed and drained channel.\<close>

definition chan_recv :: "'a chan \<Rightarrow> ('a option \<times> 'a chan) outcome" where
  "chan_recv c =
     (case c of
        None \<Rightarrow> Blocks
      | Some st \<Rightarrow>
          (case buf st of
             v # rest \<Rightarrow> Done (Some v, Some (st\<lparr>buf := rest\<rparr>))
           | [] \<Rightarrow> if closed st then Done (None, c) else Blocks))"

subsection \<open>The camp fire and its construction\<close>

record Location =
  TURNServer :: string
  Secret :: string

record Options =
  PSK :: "8 word list"
  TURNServers :: "string list"

record Attribute =
  Key :: string
  Value :: string

record sdp_SessionDescription =
  Origin_Username :: string
  Origin_SessionID :: nat
  Origin_SessionVersion :: nat
  Origin_NetworkType :: string
  Origin_AddressType :: string
  Origin_UnicastAddress :: string
  SessionName :: string
  TimeDescriptions :: "(nat \<times> nat) list"
  ConnectionInformation :: "(string \<times> string \<times> string) option"
  Attributes :: "Attribute list"

datatype SDPType = SDPTypeOffer | SDPTypeAnswer

record webrtc_SessionDescription =
  sd_Type :: SDPType
  SDP :: string

type_synonym PeerConnection = nat
type_synonym DataChannel = nat
type_synonym ReadWriteCloser = nat

record CampFire =
  cf_PeerConnection :: PeerConnection
  cf_ReadWriteCloser :: "ReadWriteCloser option"
  errc :: "go_error chan"
  readyc :: "unit chan"
  closec :: "unit chan"

datatype ICEConnectionState =
    ICEConnectionStateNew
  | ICEConnectionStateChecking
  | ICEConnectionStateConnected
  | ICEConnectionStateCompleted
  | ICEConnectionStateDisconnected
  | ICEConnectionStateFailed
  | ICEConnectionStateClosed

datatype CampEffect =
    Debug string
  | ErrorLog string
  | NewPeerConnection_call "string list"
  | CreateDataChannel_call string
  | CreateOffer_call
  | SetLocalDescription_call webrtc_SessionDescription
  | SetRemoteDescription_call webrtc_SessionDescription
  | PeerConnection_Close_call
  | Detach_call

text \<open>
  The answers of what \<open>New\<close> and the handlers call: \<open>FindCampFire\<close> (not among the
  sources; it reads the clock, so the environment holds the function at the time of the
  call), the WebRTC API, the peer connection, the data channel and the SDP library.
\<close>

record webrtc_env =
  env_FindCampFire :: "8 word list \<Rightarrow> string list \<Rightarrow> go_error + Location"
  env_NewPeerConnection :: "string list \<Rightarrow> go_error + PeerConnection"
  env_CreateDataChannel :: "string \<Rightarrow> go_error + DataChannel"
  env_CreateOffer :: "go_error + webrtc_SessionDescription"
  env_SetLocalDescription :: "webrtc_SessionDescription \<Rightarrow> go_error option"
  env_LocalDescription_Unmarshal :: "go_error + Attribute list"
  env_Marshal :: "sdp_SessionDescription \<Rightarrow> go_error + string"
  env_SetRemoteDescription :: "webrtc_SessionDescription \<Rightarrow> go_error option"
  env_PeerConnection_Close :: "go_error option"
  env_Detach :: "go_error + ReadWriteCloser"

definition HasPrefix :: "string \<Rightarrow> string \<Rightarrow> bool" where
  "HasPrefix t pre \<longleftrightarrow> take (length pre) t = pre"

definition TrimPrefix :: "string \<Rightarrow> string \<Rightarrow> string" where
  "TrimPrefix t pre = (if HasPrefix t pre then drop (length pre) t else t)"

text \<open>The value of the first attribute named \<open>fingerprint\<close>, the empty string if none.\<close>

fun find_fingerprint :: "Attribute list \<Rightarrow> string" where
  "find_fingerprint [] = []"
| "find_fingerprint (a # as) = (if Key a = ''fingerprint'' then Value a else find_fingerprint as)"

definition crafted_description :: "string \<Rightarrow> string \<Rightarrow> sdp_SessionDescription" where
  "crafted_description secret fingerprint =
     \<lparr>Origin_Username = ''-'', Origin_SessionID = 0, Origin_SessionVersion = 0,
      Origin_NetworkType = ''IN'', Origin_AddressType = ''IP4'',
      Origin_UnicastAddress = ''0.0.0.0'',
      SessionName = secret,
      TimeDescriptions = [(0, 0)],
      ConnectionInformation = Some (''IN'', ''IP4'', ''0.0.0.0''),
      Attributes =
        [\<lparr>Key = ''fingerprint'', Value = ''sha-256 '' @ TrimPrefix fingerprint ''sha-256 ''\<rparr>,
         \<lparr>Key = ''ice-ufrag'', Value = ''-''\<rparr>,
         \<lparr>Key = ''ice-pwd'', Value = ''-''\<rparr>]\<rparr>"

definition New :: "webrtc_env \<Rightarrow> Options \<Rightarrow> CampEffect list \<times> (go_error + CampFire)" where
  "New env opts =
     (case env_FindCampFire env (PSK opts) (TURNServers opts) of
        Inl err \<Rightarrow> ([], Inl (Wrapped ''find camp fire'' err))
      | Inr loc0 \<Rightarrow>
         (let loc = (if \<not> HasPrefix (TURNServer loc0) ''stun:''
                     then loc0\<lparr>TURNServer := ''stun:'' @ TURNServer loc0\<rparr> else loc0);
              out1 = [Debug ''found camp fire'', NewPeerConnection_call [TURNServer loc]]
          in (case env_NewPeerConnection env [TURNServer loc] of
               Inl err \<Rightarrow> (out1, Inl (Wrapped ''new peer connection'' err))
             | Inr conn \<Rightarrow>
                (let cf = \<lparr>cf_PeerConnection = conn, cf_ReadWriteCloser = None,
                           errc = make_chan 1, readyc = None, closec = make_chan 0\<rparr>;
                     out2 = out1 @ [CreateDataChannel_call (Secret loc)]
                 in (case env_CreateDataChannel env (Secret loc) of
                      Inl err \<Rightarrow>
                        (out2 @ [PeerConnection_Close_call],
                         Inl (Wrapped ''create data channel'' err))
                    | Inr dc \<Rightarrow>
                        (case env_CreateOffer env of
                           Inl err \<Rightarrow>
                             (out2 @ [CreateOffer_call, PeerConnection_Close_call],
                              Inl (Wrapped ''create offer'' err))
                         | Inr offer \<Rightarrow>
                            (let out3 = out2 @ [CreateOffer_call, SetLocalDescription_call offer]
                             in (case env_SetLocalDescription env offer of
                                  Some err \<Rightarrow>
                                    (out3 @ [PeerConnection_Close_call],
                                     Inl (Wrapped ''set local description'' err))
                                | None \<Rightarrow>
                                    (case env_LocalDescription_Unmarshal env of
                                       Inl err \<Rightarrow>
                                         (out3 @ [PeerConnection_Close_call],
                                          Inl (Wrapped ''unmarshal local description'' err))
                                     | Inr attrs \<Rightarrow>
                                         (case env_Marshal env
                                                 (crafted_description (Secret loc)
                                                    (find_fingerprint attrs)) of
                                            Inl err \<Rightarrow>
                                              (out3 @ [PeerConnection_Close_call],
                                               Inl (Wrapped ''marshal session description'' err))
                                          | Inr raw \<Rightarrow>
                                             (let answer = \<lparr>sd_Type = SDPTypeAnswer, SDP = raw\<rparr>
                                              in (case env_SetRemoteDescription env answer of
                                                   Some err \<Rightarrow>
                                                     (out3 @ [SetRemoteDescription_call answer,
                                                              PeerConnection_Close_call],
                                                      Inl (Wrapped ''set remote description'' err))
                                                 | None \<Rightarrow>
                                                     (out3 @ [SetRemoteDescription_call answer],
                                                      Inr cf)))))))))))))"

subsection \<open>The handlers New registers, and the methods of a camp fire\<close>

text \<open>
  The handler of ICE connection state changes closes the peer connection on a disconnect
  and drops what the close returns.
\<close>

definition onICEConnectionStateChange :: "webrtc_env \<Rightarrow> ICEConnectionState \<Rightarrow> CampEffect list" where
  "onICEConnectionStateChange env state =
     (if state = ICEConnectionStateDisconnected
      then [Debug ''ICE connection state changed'', Debug ''closing connection to camp fire'',
            PeerConnection_Close_call]
      else [Debug ''ICE connection state changed''])"

text \<open>
  The handler of the data channel's opening. Its outcome is the camp fire it leaves, or
  the statement it cannot get past.
\<close>

definition onOpen :: "webrtc_env \<Rightarrow> CampFire \<Rightarrow> CampEffect list \<times> CampFire outcome" where
  "onOpen env cf =
     (case env_Detach env of
        Inl err \<Rightarrow>
          (case chan_send (errc cf) err of
             Done c \<Rightarrow>
               ([Debug ''data channel opened'', Detach_call,
                 ErrorLog ''error detaching data channel''], Done (cf\<lparr>errc := c\<rparr>))
           | Blocks \<Rightarrow>
               ([Debug ''data channel opened'', Detach_call,
                 ErrorLog ''error detaching data channel''], Blocks)
           | Panics m \<Rightarrow>
               ([Debug ''data channel opened'', Detach_call,
                 ErrorLog ''error detaching data channel''], Panics m))
      | Inr rw \<Rightarrow>
          (case chan_close (errc cf) of
             Done c \<Rightarrow>
               (case chan_close (readyc cf) of
                  Done r \<Rightarrow>
                    ([Debug ''data channel opened'', Detach_call],
                     Done (cf\<lparr>cf_ReadWriteCloser := Some rw, errc := c, readyc := r\<rparr>))
                | Blocks \<Rightarrow> ([Debug ''data channel opened'', Detach_call], Blocks)
                | Panics m \<Rightarrow> ([Debug ''data channel opened'', Detach_call], Panics m))
           | Blocks \<Rightarrow> ([Debug ''data channel opened'', Detach_call], Blocks)
           | Panics m \<Rightarrow> ([Debug ''data channel opened'', Detach_call], Panics m)))"

definition Close :: "webrtc_env \<Rightarrow> CampFire \<Rightarrow> CampEffect list \<times> go_error option" where
  "Close env cf = ([PeerConnection_Close_call], None)"

definition Errors :: "CampFire \<Rightarrow> go_error chan" where
  "Errors cf = errc cf"

definition Ready :: "CampFire \<Rightarrow> unit chan" where
  "Ready cf = readyc cf"

subsection \<open>The location of a camp fire\<close>

text \<open>
  Modelled from the spec: \<open>FindCampFire\<close> is not among the sources. The spec has the
  pre-shared key and the relays hashed together with the current epoch (the UTC time
  divided by the epoch length) into an index into the relay list and an opaque secret.
  The hash is a parameter: it gives the number the index is taken from, and the secret.
  The clock and the epoch length, which the function reads by itself, are arguments.
\<close>

definition epoch_of :: "nat \<Rightarrow> nat \<Rightarrow> nat" where
  "epoch_of epochLength now = now div epochLength"

definition FindCampFire ::
  "(8 word list \<Rightarrow> string list \<Rightarrow> nat \<Rightarrow> nat \<times> string) \<Rightarrow> nat \<Rightarrow> nat \<Rightarrow>
     8 word list \<Rightarrow> string list \<Rightarrow> go_error + Location" where
  "FindCampFire hash epochLength now psk relays =
     (if relays = [] then Inl (Err ''no relays'')
      else
        case hash psk relays (epoch_of epochLength now) of
          (n, secret) \<Rightarrow>
            Inr \<lparr>TURNServer = relays ! (n mod length relays), Secret = secret\<rparr>)"

section \<open>Concrete inputs\<close>

subsection \<open>Concrete stores and observations\<close>

text \<open>A WireGuard public key: the base64 text of the 32 bytes 0, 1, ..., 31.\<close>

definition key_B :: Key where
  "key_B = ''AAECAwQFBgcICQoLDA0ODxAREhMUFRYXGBkaGxwdHh8=''"

definition node_B :: Node where
  "node_B = \<lparr>ID = ''B'', PublicKey = key_B, PrimaryEndpoint = IP ''203.0.113.7'',
     Endpoints = [], PrivateIPv4 = \<lparr>pfx_ip = IP ''172.16.0.2'', pfx_bits = 32\<rparr>,
     NetworkIPv6 = \<lparr>pfx_ip = IP ''fd00::2'', pfx_bits = 128\<rparr>,
     GRPCPort = 8443, RaftPort = 9443, WireguardPort = 51820\<rparr>"

text \<open>A leader with threshold 3 whose collaborators all succeed, and who has watchers.\<close>

definition leader3 :: meshStore where
  "leader3 = \<lparr>HeartbeatPurgeThreshold = 3, raft_IsLeader = True,
     raft_RemoveServer = (\<lambda>p f. None), Storage_peers_Delete = (\<lambda>p. None),
     Storage_peers_Get = (\<lambda>p. if p = ''B'' then Inr node_B else Inl ErrNodeNotFound),
     testStore = False, nodeID = ''A'', nw_RefreshPeers = None,
     plugins_HasWatchers = True, plugins_Emit = (\<lambda>e. None)\<rparr>"

definition follower3 :: meshStore where
  "follower3 = leader3\<lparr>raft_IsLeader := False\<rparr>"

definition purge_disabled :: meshStore where
  "purge_disabled = leader3\<lparr>HeartbeatPurgeThreshold := 0\<rparr>"

definition remove_fails :: meshStore where
  "remove_fails = leader3\<lparr>raft_RemoveServer := (\<lambda>p f. Some (Err ''leadership lost''))\<rparr>"

definition delete_fails :: meshStore where
  "delete_fails = leader3\<lparr>Storage_peers_Delete := (\<lambda>p. Some (Err ''storage unavailable''))\<rparr>"

definition no_failures :: heartbeats where
  "no_failures = Map.empty"

definition two_failures :: heartbeats where
  "two_failures = Map.empty(''B'' \<mapsto> 2)"

definition seven_failures :: heartbeats where
  "seven_failures = Map.empty(''B'' \<mapsto> 7)"

definition server_B :: "ServerSuffrage \<Rightarrow> raft_Server" where
  "server_B sf = \<lparr>Suffrage = sf, Server_ID = ''B'', Address = ''172.16.0.2:9443''\<rparr>"

subsection \<open>Concrete servers and requests\<close>

definition prefix_fd00 :: Prefix where
  "prefix_fd00 = \<lparr>pfx_ip = IP ''fd00::'', pfx_bits = 48\<rparr>"

definition lease_B :: Prefix where
  "lease_B = \<lparr>pfx_ip = IP ''172.16.0.2'', pfx_bits = 32\<rparr>"

definition node_of_options :: "CreateOptions \<Rightarrow> Node" where
  "node_of_options opts = \<lparr>ID = co_ID opts, PublicKey = co_PublicKey opts,
     PrimaryEndpoint = co_PrimaryEndpoint opts, Endpoints = co_Endpoints opts,
     PrivateIPv4 = zero_Prefix, NetworkIPv6 = co_NetworkIPv6 opts,
     GRPCPort = co_GRPCPort opts, RaftPort = co_RaftPort opts,
     WireguardPort = co_WireguardPort opts\<rparr>"

text \<open>
  A leader that has its prefix cached, holds the record of B, and whose calls succeed. Its
  parsers know the key and the addresses used below.
\<close>

definition join_server :: node_Server where
  "join_server = \<lparr>store_IsLeader = True, ulaPrefix = prefix_fd00,
     meshstate_GetULAPrefix = (prefix_fd00, None),
     wgtypes_ParseKey =
       (\<lambda>k. if k = key_B then Inr key_B else Inl (Err ''failed to parse base64-encoded key'')),
     netip_ParseAddr =
       (\<lambda>a. if a = ''203.0.113.7'' \<or> a = ''198.51.100.3'' then Inr (IP a)
            else Inl (Err ''unable to parse IP'')),
     peers_Get = (\<lambda>i. if i = ''B'' then Inr node_B else Inl ErrNodeNotFound),
     peers_Update = (\<lambda>n. Inr n),
     util_Random64 = (\<lambda>p. Inr \<lparr>pfx_ip = IP ''fd00::3'', pfx_bits = 128\<rparr>),
     peers_Create = (\<lambda>opts. Inr (node_of_options opts)),
     ipam_Acquire = (\<lambda>i. Inr lease_B),
     peers_ListPeers = (\<lambda>i. Inr []),
     store_AddVoter = (\<lambda>i a. None),
     store_AddNonVoter = (\<lambda>i a. None),
     store_RefreshWireguardPeers = None\<rparr>"

text \<open>A leader that has no prefix cached and cannot resolve it.\<close>

definition no_prefix_server :: node_Server where
  "no_prefix_server = join_server\<lparr>ulaPrefix := zero_Prefix,
     meshstate_GetULAPrefix := (zero_Prefix, Some (Err ''key not found''))\<rparr>"

text \<open>The request of B, field for field what the stored record of B holds.\<close>

definition join_B :: JoinRequest where
  "join_B = \<lparr>Id = ''B'', req_PublicKey = key_B, req_PrimaryEndpoint = ''203.0.113.7'',
     req_Endpoints = [], req_GrpcPort = 8443, req_RaftPort = 9443,
     req_WireguardPort = 51820, AssignIpv4 = True, PreferRaftIpv6 = False, AsVoter = True\<rparr>"

definition join_B_moved :: JoinRequest where
  "join_B_moved = join_B\<lparr>req_RaftPort := 9444\<rparr>"

definition join_B_ipv6 :: JoinRequest where
  "join_B_ipv6 = join_B\<lparr>PreferRaftIpv6 := True, AsVoter := False\<rparr>"

text \<open>B holds an IPv4 lease already and joins again without asking for one.\<close>

definition join_B_no_assign :: JoinRequest where
  "join_B_no_assign = join_B\<lparr>AssignIpv4 := False\<rparr>"

definition join_empty_id :: JoinRequest where
  "join_empty_id = join_B\<lparr>Id := []\<rparr>"

definition inputs_B :: Inputs where
  "inputs_B = \<lparr>publicKey = key_B, primaryEndpoint = IP ''203.0.113.7'', endpoints = []\<rparr>"

text \<open>
  Modelled from the spec: the value of \<open>networking.BootstrapNodesNetworkACLName\<close> is
  not among the sources; the spec lists \<open>bootstrap-nodes\<close> as a system-reserved name.
\<close>

definition BootstrapNodesNetworkACLName :: string where
  "BootstrapNodesNetworkACLName = ''bootstrap-nodes''"

definition allow_all :: admin_Server where
  "allow_all = \<lparr>Raft_IsLeader = True,
     rbacEval_Evaluate = (\<lambda>acts name. (True, None)),
     IsSystemNetworkACL = (\<lambda>name. name = BootstrapNodesNetworkACLName),
     networking_DeleteNetworkACL = (\<lambda>name. None)\<rparr>"

definition deny_all :: admin_Server where
  "deny_all = allow_all\<lparr>rbacEval_Evaluate := (\<lambda>acts name. (False, None))\<rparr>"

subsection \<open>Concrete camp fires\<close>

definition camp_env :: webrtc_env where
  "camp_env = \<lparr>
     env_FindCampFire =
       (\<lambda>psk relays. Inr \<lparr>TURNServer = ''r1.example:3478'', Secret = ''s3cret''\<rparr>),
     env_NewPeerConnection = (\<lambda>urls. Inr 1),
     env_CreateDataChannel = (\<lambda>label. Inr 1),
     env_CreateOffer = Inr \<lparr>sd_Type = SDPTypeOffer, SDP = ''offer''\<rparr>,
     env_SetLocalDescription = (\<lambda>d. None),
     env_LocalDescription_Unmarshal =
       Inr [\<lparr>Key = ''fingerprint'', Value = ''sha-256 AB:CD''\<rparr>],
     env_Marshal = (\<lambda>d. Inr ''answer''),
     env_SetRemoteDescription = (\<lambda>d. None),
     env_PeerConnection_Close = None,
     env_Detach = Inr 1\<rparr>"

definition close_fails :: webrtc_env where
  "close_fails =
     camp_env\<lparr>env_PeerConnection_Close := Some (Err ''connection already closed'')\<rparr>"

definition detach_fails :: webrtc_env where
  "detach_fails = camp_env\<lparr>env_Detach := Inl (Err ''detach not enabled'')\<rparr>"

definition camp_opts :: Options where
  "camp_opts = \<lparr>PSK = [104, 101, 108, 108, 111], TURNServers = [''r1.example:3478'']\<rparr>"

definition camp_fire :: CampFire where
  "camp_fire = \<lparr>cf_PeerConnection = 1, cf_ReadWriteCloser = None,
     errc = make_chan 1, readyc = None, closec = make_chan 0\<rparr>"

definition toy_hash :: "8 word list \<Rightarrow> string list \<Rightarrow> nat \<Rightarrow> nat \<times> string" where
  "toy_hash psk relays e = (length psk + 7 * e, Uitoa (31 * length psk + e))"

definition two_relays :: "string list" where
  "two_relays = [''turn://r1'', ''turn://r2'']"

section \<open>Properties of the observer\<close>

lemma sint_succ: "sint (c :: 64 word) < 2 ^ 63 - 1 \<Longrightarrow> sint (c + 1) = sint c + 1"
proof -
  assume a: "sint c < 2 ^ 63 - 1"
  have lo: "- (2 ^ 63) \<le> sint c" using sint_ge [of c] by simp
  have "sint (c + 1) = signed_take_bit 63 (sint c + 1)"
    by (simp add: sint_word_ariths)
  also have "\<dots> = sint c + 1"
    using a lo by (intro signed_take_bit_int_eq_self) auto
  finally show ?thesis .
qed

text \<open>
  C1, as stated, fails: with the counter at the threshold on the leader, a failing
  \<open>RemoveServer\<close> ends the run, and \<open>peers.Delete\<close> is not issued.
\<close>

theorem purge_stops_at_failed_removal:
  "0 < sint (HeartbeatPurgeThreshold remove_fails) \<and>
   sint (HeartbeatPurgeThreshold remove_fails) \<le> sint (counter two_failures ''B'' + 1) \<and>
   raft_IsLeader remove_fails \<and>
   calls (snd (observer remove_fails two_failures (FailedHeartbeatObservation ''B''))) =
     [Call_RemoveServer ''B'' True] \<and>
   Call_peers_Delete ''B'' \<notin>
     set (snd (observer remove_fails two_failures (FailedHeartbeatObservation ''B'')))"
  by (simp add: remove_fails_def leader3_def two_failures_def counter_def calls_def received_def)
lemma three_failures_purge: "calls (snd (run leader3 no_failures
       [FailedHeartbeatObservation ''B'', FailedHeartbeatObservation ''B'',
        FailedHeartbeatObservation ''B''])) =
     [Call_RemoveServer ''B'' True, Call_peers_Delete ''B'']"
  by (simp add: leader3_def no_failures_def counter_def calls_def received_def)

lemma two_failures_no_purge: "calls (snd (run leader3 no_failures
       [FailedHeartbeatObservation ''B'', FailedHeartbeatObservation ''B''])) = []"
  by (simp add: leader3_def no_failures_def counter_def calls_def received_def)

text \<open>
  C1, amended. A FailedHeartbeat event with a positive threshold increments the counter
  of that peer, and issues \<open>RemoveServer(pid, force=true)\<close> if and only if the
  incremented counter has reached the threshold and the local node is the leader (never on
  a follower, whatever the counter); \<open>peers.Delete(pid)\<close> follows if and only if that
  removal succeeded, and then the counter of the peer is cleared. With a threshold of 0 or
  less the event changes no counter and issues no call.
\<close>

theorem failed_heartbeat_purge:
  "(0 < sint (HeartbeatPurgeThreshold s) \<longrightarrow>
      calls (snd (observer s fhb (FailedHeartbeatObservation pid))) =
        (if sint (HeartbeatPurgeThreshold s) \<le> sint (counter fhb pid + 1) \<and> raft_IsLeader s
         then Call_RemoveServer pid True #
                (if raft_RemoveServer s pid True = None then [Call_peers_Delete pid] else [])
         else []) \<and>
      fst (observer s fhb (FailedHeartbeatObservation pid)) =
        (if sint (HeartbeatPurgeThreshold s) \<le> sint (counter fhb pid + 1) \<and> raft_IsLeader s \<and>
            raft_RemoveServer s pid True = None
         then fhb(pid := None)
         else fhb(pid \<mapsto> counter fhb pid + 1))) \<and>
   (sint (HeartbeatPurgeThreshold s) \<le> 0 \<longrightarrow>
      fst (observer s fhb (FailedHeartbeatObservation pid)) = fhb \<and>
      calls (snd (observer s fhb (FailedHeartbeatObservation pid))) = [])"
  by (auto simp: Let_def calls_def received_def counter_def split: option.splits)

theorem failed_heartbeat_purge_witness:
  "0 < sint (HeartbeatPurgeThreshold leader3) \<and>
   calls (snd (observer leader3 two_failures (FailedHeartbeatObservation ''B''))) =
     [Call_RemoveServer ''B'' True, Call_peers_Delete ''B''] \<and>
   fst (observer leader3 two_failures (FailedHeartbeatObservation ''B'')) ''B'' = None \<and>
   fst (observer leader3 no_failures (FailedHeartbeatObservation ''B'')) ''B'' = Some 1 \<and>
   calls (snd (observer remove_fails two_failures (FailedHeartbeatObservation ''B''))) =
     [Call_RemoveServer ''B'' True] \<and>
   fst (observer remove_fails two_failures (FailedHeartbeatObservation ''B'')) ''B'' = Some 3 \<and>
   0 < sint (HeartbeatPurgeThreshold follower3) \<and>
   calls (snd (observer follower3 seven_failures (FailedHeartbeatObservation ''B''))) = [] \<and>
   fst (observer follower3 seven_failures (FailedHeartbeatObservation ''B'')) ''B'' = Some 8 \<and>
   sint (HeartbeatPurgeThreshold purge_disabled) \<le> 0 \<and>
   fst (observer purge_disabled seven_failures (FailedHeartbeatObservation ''B'')) = seven_failures \<and>
   calls (snd (observer purge_disabled seven_failures (FailedHeartbeatObservation ''B''))) = [] \<and>
   calls (snd (run leader3 no_failures
       [FailedHeartbeatObservation ''B'', FailedHeartbeatObservation ''B''])) = [] \<and>
   calls (snd (run leader3 no_failures
       [FailedHeartbeatObservation ''B'', FailedHeartbeatObservation ''B'',
        FailedHeartbeatObservation ''B''])) =
     [Call_RemoveServer ''B'' True, Call_peers_Delete ''B'']"
  using failed_heartbeat_purge [of leader3 two_failures "''B''"]
    failed_heartbeat_purge [of leader3 no_failures "''B''"]
    failed_heartbeat_purge [of remove_fails two_failures "''B''"]
    failed_heartbeat_purge [of follower3 seven_failures "''B''"]
    failed_heartbeat_purge [of purge_disabled seven_failures "''B''"]
    two_failures_no_purge three_failures_purge
  by (simp add: leader3_def follower3_def purge_disabled_def remove_fails_def two_failures_def
        seven_failures_def no_failures_def counter_def)

text \<open>
  C2, as stated, fails: when the removal from the cluster succeeds and \<open>peers.Delete\<close>
  fails, the warning is logged but the counter of the peer is deleted all the same, and the
  next FailedHeartbeat of that peer starts again from 1 and issues no call.
\<close>

theorem delete_failure_clears_counter:
  "sint (HeartbeatPurgeThreshold delete_fails) \<le> sint (counter two_failures ''B'' + 1) \<and>
   raft_IsLeader delete_fails \<and>
   Storage_peers_Delete delete_fails ''B'' = Some (Err ''storage unavailable'') \<and>
   calls (snd (observer delete_fails two_failures (FailedHeartbeatObservation ''B''))) =
     [Call_RemoveServer ''B'' True, Call_peers_Delete ''B''] \<and>
   fst (observer delete_fails two_failures (FailedHeartbeatObservation ''B'')) ''B'' = None \<and>
   calls (snd (observer delete_fails
       (fst (observer delete_fails two_failures (FailedHeartbeatObservation ''B'')))
       (FailedHeartbeatObservation ''B''))) = []"
  by (simp add: delete_fails_def leader3_def two_failures_def counter_def calls_def received_def)

text \<open>
  C2, amended. When the purge is triggered and \<open>RemoveServer\<close> fails, the failure is
  logged and the counter of the peer is retained, so that the next FailedHeartbeat of the
  same peer issues \<open>RemoveServer\<close> again (the counter not being at the largest
  \<open>int\<close>). When \<open>RemoveServer\<close> succeeds and \<open>peers.Delete\<close> fails, the
  failure is logged and the counter of the peer is cleared.
\<close>

theorem purge_failure_handling:
  assumes "0 < sint (HeartbeatPurgeThreshold s)"
    and "sint (HeartbeatPurgeThreshold s) \<le> sint (counter fhb pid + 1)"
    and "raft_IsLeader s"
  shows "(raft_RemoveServer s pid True \<noteq> None \<longrightarrow>
            warnings (snd (observer s fhb (FailedHeartbeatObservation pid))) =
              [''failed to remove peer''] \<and>
            fst (observer s fhb (FailedHeartbeatObservation pid)) pid =
              Some (counter fhb pid + 1) \<and>
            (sint (counter fhb pid + 1) < 2 ^ 63 - 1 \<longrightarrow>
               Call_RemoveServer pid True \<in> set (snd (observer s
                  (fst (observer s fhb (FailedHeartbeatObservation pid)))
                  (FailedHeartbeatObservation pid))))) \<and>
         (raft_RemoveServer s pid True = None \<and> Storage_peers_Delete s pid \<noteq> None \<longrightarrow>
            warnings (snd (observer s fhb (FailedHeartbeatObservation pid))) =
              [''failed to remove peer from database''] \<and>
            fst (observer s fhb (FailedHeartbeatObservation pid)) pid = None)"
proof (intro conjI impI)
  assume f: "raft_RemoveServer s pid True \<noteq> None"
  then obtain e where e: "raft_RemoveServer s pid True = Some e" by auto
  have step: "observer s fhb (FailedHeartbeatObservation pid) =
      (fhb(pid \<mapsto> counter fhb pid + 1),
       received @ [LogDebug ''failed heartbeat'',
         LogInfo ''failed heartbeat threshold reached, removing peer'',
         Call_RemoveServer pid True, LogWarn ''failed to remove peer''])"
    using assms e by (simp add: Let_def counter_def)
  show "warnings (snd (observer s fhb (FailedHeartbeatObservation pid))) =
      [''failed to remove peer'']"
    unfolding step by (simp add: received_def)
  show "fst (observer s fhb (FailedHeartbeatObservation pid)) pid = Some (counter fhb pid + 1)"
    unfolding step by simp
  assume m: "sint (counter fhb pid + 1) < 2 ^ 63 - 1"
  have "sint (HeartbeatPurgeThreshold s) \<le> sint (counter fhb pid + 1 + 1)"
    using sint_succ [OF m] assms(2) by simp
  then show "Call_RemoveServer pid True \<in> set (snd (observer s
                  (fst (observer s fhb (FailedHeartbeatObservation pid)))
                  (FailedHeartbeatObservation pid)))"
    unfolding step using assms e by (simp add: Let_def counter_def)
next
  assume "raft_RemoveServer s pid True = None \<and> Storage_peers_Delete s pid \<noteq> None"
  then obtain e where ok: "raft_RemoveServer s pid True = None"
    and e: "Storage_peers_Delete s pid = Some e" by auto
  have step: "observer s fhb (FailedHeartbeatObservation pid) =
      ((fhb(pid \<mapsto> counter fhb pid + 1))(pid := None),
       received @ [LogDebug ''failed heartbeat'',
         LogInfo ''failed heartbeat threshold reached, removing peer'',
         Call_RemoveServer pid True, Call_peers_Delete pid,
         LogWarn ''failed to remove peer from database''])"
    using assms ok e by (simp add: Let_def counter_def)
  show "warnings (snd (observer s fhb (FailedHeartbeatObservation pid))) =
              [''failed to remove peer from database'']"
    unfolding step by (simp add: received_def)
  show "fst (observer s fhb (FailedHeartbeatObservation pid)) pid = None"
    unfolding step by simp
qed

theorem purge_failure_handling_witness:
  "0 < sint (HeartbeatPurgeThreshold remove_fails) \<and>
   sint (HeartbeatPurgeThreshold remove_fails) \<le> sint (counter two_failures ''B'' + 1) \<and>
   raft_IsLeader remove_fails \<and>
   raft_RemoveServer remove_fails ''B'' True \<noteq> None \<and>
   sint (counter two_failures ''B'' + 1) < 2 ^ 63 - 1 \<and>
   warnings (snd (observer remove_fails two_failures (FailedHeartbeatObservation ''B''))) =
     [''failed to remove peer''] \<and>
   fst (observer remove_fails two_failures (FailedHeartbeatObservation ''B'')) ''B'' = Some 3 \<and>
   Call_RemoveServer ''B'' True \<in> set (snd (observer remove_fails
      (fst (observer remove_fails two_failures (FailedHeartbeatObservation ''B'')))
      (FailedHeartbeatObservation ''B''))) \<and>
   raft_RemoveServer delete_fails ''B'' True = None \<and>
   Storage_peers_Delete delete_fails ''B'' \<noteq> None \<and>
   warnings (snd (observer delete_fails two_failures (FailedHeartbeatObservation ''B''))) =
     [''failed to remove peer from database''] \<and>
   fst (observer delete_fails two_failures (FailedHeartbeatObservation ''B'')) ''B'' = None"
proof -
  have c: "counter two_failures ''B'' + 1 = 3"
    by (simp add: counter_def two_failures_def)
  have h1: "0 < sint (HeartbeatPurgeThreshold remove_fails)"
    and h2: "sint (HeartbeatPurgeThreshold remove_fails) \<le> sint (counter two_failures ''B'' + 1)"
    and h3: "raft_IsLeader remove_fails"
    and h4: "raft_RemoveServer remove_fails ''B'' True \<noteq> None"
    and h5: "sint (counter two_failures ''B'' + 1) < 2 ^ 63 - 1"
    unfolding c by (simp_all add: remove_fails_def leader3_def)
  have g1: "0 < sint (HeartbeatPurgeThreshold delete_fails)"
    and g2: "sint (HeartbeatPurgeThreshold delete_fails) \<le> sint (counter two_failures ''B'' + 1)"
    and g3: "raft_IsLeader delete_fails"
    and g4: "raft_RemoveServer delete_fails ''B'' True = None"
    and g5: "Storage_peers_Delete delete_fails ''B'' \<noteq> None"
    unfolding c by (simp_all add: delete_fails_def leader3_def)
  show ?thesis
    using purge_failure_handling [OF h1 h2 h3] purge_failure_handling [OF g1 g2 g3]
      h1 h2 h3 h4 h5 g4 g5 c
    by simp
qed

text \<open>
  C7. For a PeerChange observation that is not about the local node, with plugin watchers
  registered and the node record found, the event handed to the emitter is \<open>NODE_LEAVE\<close>
  with cluster status unknown when \<open>removed\<close> is set, and otherwise \<open>NODE_JOIN\<close> with
  status non-voter for a non-voter and voter for every other suffrage. It is the only event
  of the run; a store built for tests returns before the refresh and emits nothing.
\<close>

theorem peer_change_event:
  assumes "Server_ID peer \<noteq> nodeID s"
    and "plugins_HasWatchers s"
    and "Storage_peers_Get s (Server_ID peer) = Inr node"
  shows "emitted (snd (observer s fhb (PeerObservation removed peer))) =
     (if testStore s then []
      else [\<lparr>ev_Type = (if removed then WATCH_EVENT_NODE_LEAVE else WATCH_EVENT_NODE_JOIN),
             ev_Node = Proto node
               (if removed then CLUSTER_STATUS_UNKNOWN
                else if Suffrage peer = Nonvoter then CLUSTER_NON_VOTER
                else CLUSTER_VOTER)\<rparr>])"
  using assms
  by (auto simp: Let_def received_def peer_event_type_def peer_cluster_status_def
           split: option.splits)

theorem peer_change_event_witness:
  "Server_ID (server_B Nonvoter) \<noteq> nodeID leader3 \<and>
   plugins_HasWatchers leader3 \<and>
   Storage_peers_Get leader3 (Server_ID (server_B Nonvoter)) = Inr node_B \<and>
   emitted (snd (observer leader3 two_failures (PeerObservation True (server_B Nonvoter)))) =
     [\<lparr>ev_Type = WATCH_EVENT_NODE_LEAVE, ev_Node = Proto node_B CLUSTER_STATUS_UNKNOWN\<rparr>] \<and>
   emitted (snd (observer leader3 two_failures (PeerObservation False (server_B Nonvoter)))) =
     [\<lparr>ev_Type = WATCH_EVENT_NODE_JOIN, ev_Node = Proto node_B CLUSTER_NON_VOTER\<rparr>] \<and>
   emitted (snd (observer leader3 two_failures (PeerObservation False (server_B Staging)))) =
     [\<lparr>ev_Type = WATCH_EVENT_NODE_JOIN, ev_Node = Proto node_B CLUSTER_VOTER\<rparr>]"
proof -
  have a: "Server_ID (server_B sf) \<noteq> nodeID leader3" for sf
    by (simp add: server_B_def leader3_def)
  have b: "plugins_HasWatchers leader3"
    by (simp add: leader3_def)
  have c: "Storage_peers_Get leader3 (Server_ID (server_B sf)) = Inr node_B" for sf
    by (simp add: server_B_def leader3_def)
  have t: "\<not> testStore leader3"
    by (simp add: leader3_def)
  have s: "Suffrage (server_B sf) = sf" for sf
    by (simp add: server_B_def)
  show ?thesis
    using peer_change_event [where removed = True and fhb = two_failures, OF a b c, of Nonvoter]
      peer_change_event [where removed = False and fhb = two_failures, OF a b c, of Nonvoter]
      peer_change_event [where removed = False and fhb = two_failures, OF a b c, of Staging]
      a b c t s
    by simp
qed

section \<open>Properties of Join\<close>

subsection \<open>The steps, one by one\<close>

lemma resolve_cases:
  obtains (cached) "Prefix_IsValid (ulaPrefix s)" "resolve_ulaPrefix s = (s, [], None)"
  | (fetched) p where "\<not> Prefix_IsValid (ulaPrefix s)" "meshstate_GetULAPrefix s = (p, None)"
      "resolve_ulaPrefix s = (s\<lparr>ulaPrefix := p\<rparr>, [GetULAPrefix_call], None)"
  | (failed) p err where "\<not> Prefix_IsValid (ulaPrefix s)"
      "meshstate_GetULAPrefix s = (p, Some err)"
      "resolve_ulaPrefix s = (s\<lparr>ulaPrefix := p\<rparr>, [GetULAPrefix_call],
         Some (Errorf Internal ''failed to get ULA prefix: %v'' err))"
  by (cases "meshstate_GetULAPrefix s"; cases "snd (meshstate_GetULAPrefix s)")
     (auto simp: resolve_ulaPrefix_def)

lemma validate_ulaPrefix [simp]:
  "validate_inputs (s\<lparr>ulaPrefix := p\<rparr>) req = validate_inputs s req"
  by (simp add: validate_inputs_def cong: sum.case_cong if_cong)

lemma resolve_effects:
  assumes "resolve_ulaPrefix s = (s1, out0, x)"
  shows "set out0 \<subseteq> {GetULAPrefix_call}"
    and "peers_Update s1 = peers_Update s" and "peers_Create s1 = peers_Create s"
    and "ipam_Acquire s1 = ipam_Acquire s"
  using assms
  by (auto simp: resolve_ulaPrefix_def split: if_splits prod.splits option.splits)

lemma upsert_effects:
  assumes "upsert_peer s req inp = (out1, r)"
  shows "AddVoter_call i a \<notin> set out1" and "AddNonVoter_call i a \<notin> set out1"
    and "Acquire_call j \<notin> set out1"
  using assms
  by (auto simp: upsert_peer_def Let_def split: sum.splits if_splits call.splits)

lemma upsert_result:
  assumes "upsert_peer s req inp = (out1, Returns (Inr peer))"
  shows "(\<exists>n. Update_call n \<in> set out1 \<and> peers_Update s n = Inr peer) \<or>
         (\<exists>opts. Create_call opts \<in> set out1 \<and> peers_Create s opts = Inr peer)"
  using assms
  by (auto simp: upsert_peer_def Let_def split: sum.splits if_splits call.splits)

lemma upsert_existing:
  assumes "peers_Get s (Id req) = Inr stored"
    and "update_fields req inp stored = Returns written"
  shows "\<exists>r. upsert_peer s req inp =
     ([Get_call (Id req), Info ''peer already exists, checking for updates'',
       Update_call written], r)"
  using assms by (simp add: upsert_peer_def Let_def split: sum.splits)

lemma upsert_panics:
  assumes "peers_Get s (Id req) = Inr stored"
    and "update_fields req inp stored = Panic m"
  shows "upsert_peer s req inp =
     ([Get_call (Id req), Info ''peer already exists, checking for updates''], Panic m)"
  using assms by (simp add: upsert_peer_def)

lemma update_fields_one_empty:
  assumes "Endpoints stored = [] \<or> endpoints inp = []"
  shows "update_fields req inp stored =
     Returns (stored\<lparr>PublicKey := publicKey inp,
              GRPCPort := req_GrpcPort req,
              RaftPort := req_RaftPort req,
              WireguardPort := req_WireguardPort req,
              PrimaryEndpoint :=
                (if Addr_IsValid (primaryEndpoint inp) \<and>
                    Addr_String (primaryEndpoint inp) \<noteq> Addr_String (PrimaryEndpoint stored)
                 then primaryEndpoint inp else PrimaryEndpoint stored),
              Endpoints := endpoints inp\<rparr>)"
  using assms by (auto simp: update_fields_def cmp_Equal_def Let_def)

lemma update_fields_both:
  assumes "Endpoints stored \<noteq> []" and "endpoints inp \<noteq> []"
  shows "update_fields req inp stored = Panic ''cannot handle unexported field''"
  using assms by (simp add: update_fields_def cmp_Equal_def Let_def)

lemma acquire_effects:
  assumes "acquire_lease s req = (out2, r)"
  shows "AddVoter_call i a \<notin> set out2" and "AddNonVoter_call i a \<notin> set out2"
    and "Acquire_call j \<in> set out2 \<longleftrightarrow> AssignIpv4 req \<and> j = Id req"
    and "r = Inr lease \<Longrightarrow> AssignIpv4 req \<Longrightarrow> ipam_Acquire s (Id req) = Inr lease"
  using assms
  by (auto simp: acquire_lease_def split: sum.splits if_splits)

lemma add_effects:
  assumes "add_to_cluster s req addr = (out3, r)"
  shows "AddVoter_call i a \<in> set out3 \<longleftrightarrow> AsVoter req \<and> i = Id req \<and> a = addr"
    and "AddNonVoter_call i a \<in> set out3 \<longleftrightarrow> \<not> AsVoter req \<and> i = Id req \<and> a = addr"
    and "Acquire_call j \<notin> set out3"
  using assms
  by (auto simp: add_to_cluster_def split: option.splits if_splits)

lemma deferred_effects:
  "AddVoter_call i a \<notin> set (deferred_refresh s)"
  "AddNonVoter_call i a \<notin> set (deferred_refresh s)"
  "Acquire_call j \<notin> set (deferred_refresh s)"
  by (auto simp: deferred_refresh_def split: option.splits)

lemma join_after_upsert:
  assumes "store_IsLeader s"
    and "resolve_ulaPrefix s = (s1, out0, None)"
    and "validate_inputs s1 req = Inr inp"
    and "upsert_peer s1 req inp = (out1, r)"
  shows "\<exists>rest. fst (snd (Join s req)) = out0 @ out1 @ rest"
  using assms
  by (auto simp: Join_def split: sum.splits prod.splits option.splits call.splits)

lemma join_upsert_panic:
  assumes "store_IsLeader s"
    and "resolve_ulaPrefix s = (s1, out0, None)"
    and "validate_inputs s1 req = Inr inp"
    and "upsert_peer s1 req inp = (out1, Panic m)"
  shows "Join s req = (s1, out0 @ out1, Panic m)"
  using assms by (simp add: Join_def)

lemma join_cluster_call:
  assumes "AddVoter_call i a \<in> set (fst (snd (Join s req))) \<or>
           AddNonVoter_call i a \<in> set (fst (snd (Join s req)))"
  obtains s1 out0 inp out1 peer out2 lease where
    "resolve_ulaPrefix s = (s1, out0, None)"
    "upsert_peer s1 req inp = (out1, Returns (Inr peer))"
    "acquire_lease s1 req = (out2, Inr lease)"
    "set out1 \<subseteq> set (fst (snd (Join s req)))"
    "Acquire_call (Id req) \<in> set (fst (snd (Join s req))) \<longleftrightarrow>
       Acquire_call (Id req) \<in> set out2"
    "i = Id req" "a = raftAddress req lease peer"
    "AddVoter_call i a \<in> set (fst (snd (Join s req))) \<longleftrightarrow> AsVoter req"
proof -
  have leader: "store_IsLeader s"
    using assms by (auto simp: Join_def split: if_splits)
  obtain s1 out0 x where r: "resolve_ulaPrefix s = (s1, out0, x)"
    by (cases "resolve_ulaPrefix s") auto
  note re = resolve_effects [OF r]
  have x: "x = None"
    using assms leader r re(1) by (cases x) (auto simp: Join_def)
  obtain inp where v: "validate_inputs s1 req = Inr inp"
    using assms leader r x re(1) by (cases "validate_inputs s1 req") (auto simp: Join_def)
  obtain out1 u where u: "upsert_peer s1 req inp = (out1, u)"
    by (cases "upsert_peer s1 req inp") auto
  note ue = upsert_effects [OF u]
  obtain u' where u': "u = Returns u'"
    using assms leader r x re(1) v u ue by (cases u) (auto simp: Join_def)
  obtain peer where p: "u' = Inr peer"
    using assms leader r x re(1) v u ue u' by (cases u') (auto simp: Join_def)
  obtain out2 l where l: "acquire_lease s1 req = (out2, l)"
    by (cases "acquire_lease s1 req") auto
  note ae = acquire_effects [OF l]
  obtain lease where le: "l = Inr lease"
    using assms leader r x re(1) v u ue u' p l ae(1,2) by (cases l) (auto simp: Join_def)
  obtain peers where ps: "peers_ListPeers s1 (Id req) = Inr peers"
    using assms leader r x re(1) v u ue u' p l ae(1,2) le
    by (cases "peers_ListPeers s1 (Id req)") (auto simp: Join_def)
  obtain out3 c where c: "add_to_cluster s1 req (raftAddress req lease peer) = (out3, c)"
    by (cases "add_to_cluster s1 req (raftAddress req lease peer)") auto
  note ce = add_effects [OF c]
  have out: "\<exists>tail. fst (snd (Join s req)) =
      out0 @ out1 @ out2 @ [ListPeers_call (Id req)] @ out3 @ tail \<and>
      (tail = [] \<or> tail = deferred_refresh s1)"
    using leader r x v u u' p l le ps c by (cases c) (auto simp: Join_def)
  then obtain tail where o: "fst (snd (Join s req)) =
      out0 @ out1 @ out2 @ [ListPeers_call (Id req)] @ out3 @ tail"
    and t: "tail = [] \<or> tail = deferred_refresh s1" by blast
  have tl: "AddVoter_call i a \<notin> set tail" "AddNonVoter_call i a \<notin> set tail"
    "Acquire_call (Id req) \<notin> set tail"
    using t deferred_effects [where s = s1] by auto
  have in3: "AddVoter_call i a \<in> set out3 \<or> AddNonVoter_call i a \<in> set out3"
    using assms o re(1) ue(1,2) ae(1,2) tl by auto
  have ia: "i = Id req" "a = raftAddress req lease peer"
    using in3 ce(1,2) by auto
  have vo: "AddVoter_call i a \<in> set (fst (snd (Join s req))) \<longleftrightarrow> AsVoter req"
    using o re(1) ue(1) ae(1) tl(1) ce(1) [of i a] in3 ce(2) [of i a] by auto
  have aq: "Acquire_call (Id req) \<in> set (fst (snd (Join s req))) \<longleftrightarrow>
      Acquire_call (Id req) \<in> set out2"
    using o re(1) ue(3) ce(3) tl(3) by auto
  have sub: "set out1 \<subseteq> set (fst (snd (Join s req)))"
    using o by auto
  show thesis
    using that [OF r [unfolded x] u [unfolded u' p] l [unfolded le] sub aq ia vo] .
qed

subsection \<open>Runs on the concrete requests\<close>

lemmas join_eval =
  Join_def join_server_def resolve_ulaPrefix_def Prefix_IsValid_def prefix_fd00_def
  validate_inputs_def upsert_peer_def update_fields_def cmp_Equal_def node_B_def
  acquire_lease_def lease_B_def add_to_cluster_def raftAddress_def deferred_refresh_def
  JoinHostPort_def Itoa_def Uitoa.simps Prefix_Addr_def Let_def

lemma join_B_run:
  "fst (snd (Join join_server join_B)) =
     [Get_call ''B'', Info ''peer already exists, checking for updates'', Update_call node_B,
      Info ''assigning IPv4 address to peer'', Acquire_call ''B'',
      Info ''assigned IPv4 address to peer'', ListPeers_call ''B'',
      Info ''adding candidate to cluster'', AddVoter_call ''B'' ''172.16.0.2:9443'',
      RefreshWireguardPeers_call]"
  by (simp add: join_eval join_B_def)

lemma join_B_ipv6_run:
  "fst (snd (Join join_server join_B_ipv6)) =
     [Get_call ''B'', Info ''peer already exists, checking for updates'', Update_call node_B,
      Info ''assigning IPv4 address to peer'', Acquire_call ''B'',
      Info ''assigned IPv4 address to peer'', ListPeers_call ''B'',
      Info ''adding non-voter to cluster'', AddNonVoter_call ''B'' ''[fd00::2]:9443'',
      RefreshWireguardPeers_call]"
  by (simp add: join_eval join_B_ipv6_def join_B_def)

lemma join_B_no_assign_run:
  "fst (snd (Join join_server join_B_no_assign)) =
     [Get_call ''B'', Info ''peer already exists, checking for updates'', Update_call node_B,
      ListPeers_call ''B'',
      Info ''adding candidate to cluster'', AddVoter_call ''B'' ''[fd00::2]:9443'',
      RefreshWireguardPeers_call]"
  by (simp add: join_eval join_B_no_assign_def join_B_def)

lemma validate_join_B: "validate_inputs join_server join_B = Inr inputs_B"
  by (simp add: validate_inputs_def join_server_def join_B_def inputs_B_def)

lemma validate_join_B_moved: "validate_inputs join_server join_B_moved = Inr inputs_B"
  by (simp add: validate_inputs_def join_server_def join_B_moved_def join_B_def inputs_B_def)

subsection \<open>The claims about Join\<close>

text \<open>
  C3, as stated, fails: B holds an IPv4 lease (its record has the address, the IPAM
  answers with the lease) and joins without \<open>assignIpv4\<close> and without
  \<open>preferRaftIpv6\<close>; the address handed to \<open>AddVoter\<close> is the IPv6 one.
\<close>

theorem lease_held_but_ipv6:
  "peers_Get join_server (Id join_B_no_assign) = Inr node_B \<and>
   Prefix_IsValid (PrivateIPv4 node_B) \<and>
   ipam_Acquire join_server (Id join_B_no_assign) = Inr lease_B \<and>
   \<not> PreferRaftIpv6 join_B_no_assign \<and>
   AddVoter_call ''B'' ''[fd00::2]:9443'' \<in> set (fst (snd (Join join_server join_B_no_assign)))"
  by (simp add: join_B_no_assign_run)
     (simp add: join_server_def join_B_no_assign_def join_B_def node_B_def Prefix_IsValid_def)

text \<open>
  C3, amended. Whenever a run of Join calls \<open>AddVoter\<close> or \<open>AddNonVoter\<close>, the
  node id passed is the request's and the address passed is \<open>overlayV4:consensusPort\<close>
  exactly when the request set \<open>assignIpv4\<close>, so that a lease was acquired in this
  run, and did not set \<open>preferRaftIpv6\<close>; in every other case, a node that holds a
  lease from before included, it is \<open>overlayV6:consensusPort\<close>. Here \<open>overlayV4\<close>
  is the address of the lease the IPAM returned, \<open>overlayV6\<close> the address of the
  \<open>NetworkIPv6\<close> of the record that \<open>peers.Update\<close> or \<open>peers.Create\<close> returned,
  and the port is the \<open>RaftPort\<close> of that record. \<open>AddVoter\<close> is the call made
  exactly when the request has \<open>asVoter\<close>.
\<close>

theorem join_raft_address:
  assumes "AddVoter_call i a \<in> set (fst (snd (Join s req))) \<or>
           AddNonVoter_call i a \<in> set (fst (snd (Join s req)))"
  shows "\<exists>peer lease.
     ((\<exists>n. Update_call n \<in> set (fst (snd (Join s req))) \<and> peers_Update s n = Inr peer) \<or>
      (\<exists>opts. Create_call opts \<in> set (fst (snd (Join s req))) \<and>
          peers_Create s opts = Inr peer)) \<and>
     (Acquire_call (Id req) \<in> set (fst (snd (Join s req))) \<longleftrightarrow> AssignIpv4 req) \<and>
     (AssignIpv4 req \<longrightarrow> ipam_Acquire s (Id req) = Inr lease) \<and>
     i = Id req \<and>
     a = (if AssignIpv4 req \<and> \<not> PreferRaftIpv6 req
          then JoinHostPort (Addr_String (pfx_ip lease)) (Itoa (RaftPort peer))
          else JoinHostPort (Addr_String (pfx_ip (NetworkIPv6 peer))) (Itoa (RaftPort peer))) \<and>
     (AddVoter_call i a \<in> set (fst (snd (Join s req))) \<longleftrightarrow> AsVoter req)"
proof -
  from assms obtain s1 out0 inp out1 peer out2 lease where
    r: "resolve_ulaPrefix s = (s1, out0, None)"
    and u: "upsert_peer s1 req inp = (out1, Returns (Inr peer))"
    and l: "acquire_lease s1 req = (out2, Inr lease)"
    and sub: "set out1 \<subseteq> set (fst (snd (Join s req)))"
    and aq: "Acquire_call (Id req) \<in> set (fst (snd (Join s req))) \<longleftrightarrow>
      Acquire_call (Id req) \<in> set out2"
    and ia: "i = Id req" "a = raftAddress req lease peer"
    and vo: "AddVoter_call i a \<in> set (fst (snd (Join s req))) \<longleftrightarrow> AsVoter req"
    by (rule join_cluster_call)
  note re = resolve_effects [OF r]
  have 1: "(\<exists>n. Update_call n \<in> set (fst (snd (Join s req))) \<and> peers_Update s n = Inr peer) \<or>
      (\<exists>opts. Create_call opts \<in> set (fst (snd (Join s req))) \<and>
          peers_Create s opts = Inr peer)"
    using upsert_result [OF u] sub re(2,3) by auto
  have 2: "Acquire_call (Id req) \<in> set (fst (snd (Join s req))) \<longleftrightarrow> AssignIpv4 req"
    using aq acquire_effects(3) [OF l, of "Id req"] by simp
  have 3: "AssignIpv4 req \<longrightarrow> ipam_Acquire s (Id req) = Inr lease"
    using acquire_effects(4) [OF l, of lease] re(4) by simp
  have 4: "a = (if AssignIpv4 req \<and> \<not> PreferRaftIpv6 req
          then JoinHostPort (Addr_String (pfx_ip lease)) (Itoa (RaftPort peer))
          else JoinHostPort (Addr_String (pfx_ip (NetworkIPv6 peer))) (Itoa (RaftPort peer)))"
    using ia(2) by (simp add: raftAddress_def Prefix_Addr_def)
  show ?thesis
    using 1 2 3 4 ia(1) vo by blast
qed

theorem join_raft_address_witness:
  "AddVoter_call ''B'' ''172.16.0.2:9443'' \<in> set (fst (snd (Join join_server join_B))) \<and>
   ''172.16.0.2:9443'' = JoinHostPort (Addr_String (pfx_ip lease_B)) (Itoa (RaftPort node_B)) \<and>
   AddNonVoter_call ''B'' ''[fd00::2]:9443'' \<in> set (fst (snd (Join join_server join_B_ipv6))) \<and>
   ''[fd00::2]:9443'' =
     JoinHostPort (Addr_String (pfx_ip (NetworkIPv6 node_B))) (Itoa (RaftPort node_B))"
proof -
  have h1: "AddVoter_call ''B'' ''172.16.0.2:9443'' \<in> set (fst (snd (Join join_server join_B))) \<or>
      AddNonVoter_call ''B'' ''172.16.0.2:9443'' \<in> set (fst (snd (Join join_server join_B)))"
    by (simp add: join_B_run)
  have h2: "AddVoter_call ''B'' ''[fd00::2]:9443'' \<in> set (fst (snd (Join join_server join_B_ipv6))) \<or>
      AddNonVoter_call ''B'' ''[fd00::2]:9443'' \<in> set (fst (snd (Join join_server join_B_ipv6)))"
    by (simp add: join_B_ipv6_run)
  have f: "AssignIpv4 join_B" "\<not> PreferRaftIpv6 join_B" "Id join_B = ''B''"
    "PreferRaftIpv6 join_B_ipv6"
    by (simp_all add: join_B_def join_B_ipv6_def)
  from join_raft_address [OF h1] obtain peer lease where
    p: "(\<exists>n. Update_call n \<in> set (fst (snd (Join join_server join_B))) \<and>
            peers_Update join_server n = Inr peer) \<or>
        (\<exists>opts. Create_call opts \<in> set (fst (snd (Join join_server join_B))) \<and>
            peers_Create join_server opts = Inr peer)"
    and l: "AssignIpv4 join_B \<longrightarrow> ipam_Acquire join_server (Id join_B) = Inr lease"
    and a: "''172.16.0.2:9443'' = (if AssignIpv4 join_B \<and> \<not> PreferRaftIpv6 join_B
          then JoinHostPort (Addr_String (pfx_ip lease)) (Itoa (RaftPort peer))
          else JoinHostPort (Addr_String (pfx_ip (NetworkIPv6 peer))) (Itoa (RaftPort peer)))"
    by blast
  have "peer = node_B"
    using p unfolding join_B_run by (auto simp: join_server_def)
  moreover have "lease = lease_B"
    using l f by (simp add: join_server_def)
  ultimately have v4: "''172.16.0.2:9443'' =
      JoinHostPort (Addr_String (pfx_ip lease_B)) (Itoa (RaftPort node_B))"
    using a f by simp
  from join_raft_address [OF h2] obtain peer' and lease' :: Prefix where
    p': "(\<exists>n. Update_call n \<in> set (fst (snd (Join join_server join_B_ipv6))) \<and>
            peers_Update join_server n = Inr peer') \<or>
        (\<exists>opts. Create_call opts \<in> set (fst (snd (Join join_server join_B_ipv6))) \<and>
            peers_Create join_server opts = Inr peer')"
    and a': "''[fd00::2]:9443'' = (if AssignIpv4 join_B_ipv6 \<and> \<not> PreferRaftIpv6 join_B_ipv6
          then JoinHostPort (Addr_String (pfx_ip lease')) (Itoa (RaftPort peer'))
          else JoinHostPort (Addr_String (pfx_ip (NetworkIPv6 peer'))) (Itoa (RaftPort peer')))"
    by blast
  have "peer' = node_B"
    using p' unfolding join_B_ipv6_run by (auto simp: join_server_def)
  then have v6: "''[fd00::2]:9443'' =
      JoinHostPort (Addr_String (pfx_ip (NetworkIPv6 node_B))) (Itoa (RaftPort node_B))"
    using a' f by simp
  show ?thesis
    using v4 v6 by (simp add: join_B_run join_B_ipv6_run)
qed

text \<open>
  C4, as stated, fails: the request of B names an existing record and agrees with it in
  every field, and the run still calls \<open>peers.Update\<close>, with the stored record.
\<close>

theorem identical_join_still_writes:
  "peers_Get join_server (Id join_B) = Inr node_B \<and>
   validate_inputs join_server join_B = Inr inputs_B \<and>
   update_fields join_B inputs_B node_B = Returns node_B \<and>
   Update_call node_B \<in> set (fst (snd (Join join_server join_B)))"
  by (simp add: join_B_run validate_join_B)
     (simp add: join_server_def join_B_def inputs_B_def update_fields_def cmp_Equal_def node_B_def)

text \<open>
  C4, amended. For a Join request received by the leader, with the prefix cached or
  resolved and valid inputs, whose id names an existing node record, and where the stored
  or the requested list of endpoints is empty: the service takes the stored record,
  replaces field by field what differs from the request (public key, the three ports, the
  primary endpoint when the request gives one, the endpoints), and writes the result back
  with \<open>peers.Update\<close> whether or not a field changed; for a Join identical to the
  stored record, the record written is the stored one.
\<close>

theorem join_existing_peer_always_updated:
  assumes "store_IsLeader s"
    and "Prefix_IsValid (ulaPrefix s) \<or> snd (meshstate_GetULAPrefix s) = None"
    and "validate_inputs s req = Inr inp"
    and "peers_Get s (Id req) = Inr stored"
    and "Endpoints stored = [] \<or> endpoints inp = []"
  shows "Update_call
       (stored\<lparr>PublicKey := publicKey inp,
              GRPCPort := req_GrpcPort req,
              RaftPort := req_RaftPort req,
              WireguardPort := req_WireguardPort req,
              PrimaryEndpoint :=
                (if Addr_IsValid (primaryEndpoint inp) \<and>
                    Addr_String (primaryEndpoint inp) \<noteq> Addr_String (PrimaryEndpoint stored)
                 then primaryEndpoint inp else PrimaryEndpoint stored),
              Endpoints := endpoints inp\<rparr>) \<in> set (fst (snd (Join s req))) \<and>
     (PublicKey stored = publicKey inp \<and> GRPCPort stored = req_GrpcPort req \<and>
      RaftPort stored = req_RaftPort req \<and> WireguardPort stored = req_WireguardPort req \<and>
      (Addr_IsValid (primaryEndpoint inp) \<longrightarrow>
         Addr_String (primaryEndpoint inp) = Addr_String (PrimaryEndpoint stored)) \<and>
      Endpoints stored = endpoints inp \<longrightarrow>
      Update_call stored \<in> set (fst (snd (Join s req))))"
proof -
  let ?w = "stored\<lparr>PublicKey := publicKey inp,
              GRPCPort := req_GrpcPort req,
              RaftPort := req_RaftPort req,
              WireguardPort := req_WireguardPort req,
              PrimaryEndpoint :=
                (if Addr_IsValid (primaryEndpoint inp) \<and>
                    Addr_String (primaryEndpoint inp) \<noteq> Addr_String (PrimaryEndpoint stored)
                 then primaryEndpoint inp else PrimaryEndpoint stored),
              Endpoints := endpoints inp\<rparr>"
  have w: "update_fields req inp stored = Returns ?w"
    by (rule update_fields_one_empty [OF assms(5)])
  have 1: "Update_call ?w \<in> set (fst (snd (Join s req)))"
  proof (cases s rule: resolve_cases)
    case cached
    from upsert_existing [OF assms(4) w] obtain r where
      u: "upsert_peer s req inp =
        ([Get_call (Id req), Info ''peer already exists, checking for updates'',
          Update_call ?w], r)" by blast
    from join_after_upsert [OF assms(1) cached(2) assms(3) u] show ?thesis by auto
  next
    case (fetched p)
    have g: "peers_Get (s\<lparr>ulaPrefix := p\<rparr>) (Id req) = Inr stored" using assms(4) by simp
    have v: "validate_inputs (s\<lparr>ulaPrefix := p\<rparr>) req = Inr inp" using assms(3) by simp
    from upsert_existing [OF g w] obtain r where
      u: "upsert_peer (s\<lparr>ulaPrefix := p\<rparr>) req inp =
        ([Get_call (Id req), Info ''peer already exists, checking for updates'',
          Update_call ?w], r)" by blast
    from join_after_upsert [OF assms(1) fetched(3) v u] show ?thesis by auto
  next
    case (failed p err)
    then show ?thesis using assms(2) by simp
  qed
  have 2: "PublicKey stored = publicKey inp \<and> GRPCPort stored = req_GrpcPort req \<and>
      RaftPort stored = req_RaftPort req \<and> WireguardPort stored = req_WireguardPort req \<and>
      (Addr_IsValid (primaryEndpoint inp) \<longrightarrow>
         Addr_String (primaryEndpoint inp) = Addr_String (PrimaryEndpoint stored)) \<and>
      Endpoints stored = endpoints inp \<longrightarrow> ?w = stored"
    by auto
  show ?thesis
  proof (intro conjI impI)
    show "Update_call ?w \<in> set (fst (snd (Join s req)))" by (rule 1)
  next
    assume "PublicKey stored = publicKey inp \<and> GRPCPort stored = req_GrpcPort req \<and>
      RaftPort stored = req_RaftPort req \<and> WireguardPort stored = req_WireguardPort req \<and>
      (Addr_IsValid (primaryEndpoint inp) \<longrightarrow>
         Addr_String (primaryEndpoint inp) = Addr_String (PrimaryEndpoint stored)) \<and>
      Endpoints stored = endpoints inp"
    with 2 have "?w = stored" by blast
    with 1 show "Update_call stored \<in> set (fst (snd (Join s req)))" by simp
  qed
qed

theorem join_existing_peer_always_updated_witness:
  "store_IsLeader join_server \<and>
   Prefix_IsValid (ulaPrefix join_server) \<and>
   validate_inputs join_server join_B_moved = Inr inputs_B \<and>
   peers_Get join_server (Id join_B_moved) = Inr node_B \<and>
   Endpoints node_B = [] \<and>
   Update_call (node_B\<lparr>RaftPort := 9444\<rparr>) \<in> set (fst (snd (Join join_server join_B_moved)))"
proof -
  have h1: "store_IsLeader join_server"
    by (simp add: join_server_def)
  have h2: "Prefix_IsValid (ulaPrefix join_server) \<or>
      snd (meshstate_GetULAPrefix join_server) = None"
    by (simp add: join_server_def)
  have h2': "Prefix_IsValid (ulaPrefix join_server)"
    by (simp add: join_server_def Prefix_IsValid_def prefix_fd00_def)
  have h4: "peers_Get join_server (Id join_B_moved) = Inr node_B"
    by (simp add: join_server_def join_B_moved_def join_B_def)
  have h5: "Endpoints node_B = [] \<or> endpoints inputs_B = []"
    by (simp add: node_B_def)
  have h5': "Endpoints node_B = []"
    by (simp add: node_B_def)
  have u: "node_B\<lparr>PublicKey := publicKey inputs_B,
              GRPCPort := req_GrpcPort join_B_moved,
              RaftPort := req_RaftPort join_B_moved,
              WireguardPort := req_WireguardPort join_B_moved,
              PrimaryEndpoint :=
                (if Addr_IsValid (primaryEndpoint inputs_B) \<and>
                    Addr_String (primaryEndpoint inputs_B) \<noteq> Addr_String (PrimaryEndpoint node_B)
                 then primaryEndpoint inputs_B else PrimaryEndpoint node_B),
              Endpoints := endpoints inputs_B\<rparr> = node_B\<lparr>RaftPort := 9444\<rparr>"
    by (simp add: join_B_moved_def join_B_def inputs_B_def node_B_def)
  from join_existing_peer_always_updated [OF h1 h2 validate_join_B_moved h4 h5]
  have "Update_call (node_B\<lparr>RaftPort := 9444\<rparr>)
      \<in> set (fst (snd (Join join_server join_B_moved)))"
    unfolding u by (rule conjunct1)
  with h1 h2' validate_join_B_moved h4 h5' show ?thesis
    by blast
qed

text \<open>
  Where the stored and the requested list of endpoints both have elements, the comparison
  panics before any write.
\<close>

lemma join_nonempty_endpoints_panics:
  assumes "store_IsLeader s"
    and "Prefix_IsValid (ulaPrefix s) \<or> snd (meshstate_GetULAPrefix s) = None"
    and "validate_inputs s req = Inr inp"
    and "peers_Get s (Id req) = Inr stored"
    and "Endpoints stored \<noteq> []" and "endpoints inp \<noteq> []"
  shows "snd (snd (Join s req)) = Panic ''cannot handle unexported field'' \<and>
         Update_call n \<notin> set (fst (snd (Join s req)))"
proof (cases s rule: resolve_cases)
  case cached
  from upsert_panics [OF assms(4) update_fields_both [OF assms(5,6)]]
  have u: "upsert_peer s req inp =
     ([Get_call (Id req), Info ''peer already exists, checking for updates''],
      Panic ''cannot handle unexported field'')" .
  show ?thesis
    unfolding join_upsert_panic [OF assms(1) cached(2) assms(3) u] by simp
next
  case (fetched p)
  have g: "peers_Get (s\<lparr>ulaPrefix := p\<rparr>) (Id req) = Inr stored" using assms(4) by simp
  have v: "validate_inputs (s\<lparr>ulaPrefix := p\<rparr>) req = Inr inp" using assms(3) by simp
  from upsert_panics [OF g update_fields_both [OF assms(5,6)]]
  have u: "upsert_peer (s\<lparr>ulaPrefix := p\<rparr>) req inp =
     ([Get_call (Id req), Info ''peer already exists, checking for updates''],
      Panic ''cannot handle unexported field'')" .
  show ?thesis
    unfolding join_upsert_panic [OF assms(1) fetched(3) v u] by simp
next
  case (failed p err)
  then show ?thesis using assms(2) by simp
qed

text \<open>
  C5, as stated, fails: on a leader that has no prefix cached and cannot resolve it, a
  request with an empty id is answered \<open>Internal\<close>; the resolution of the prefix comes
  before the validation of the inputs.
\<close>

theorem empty_id_unresolved_prefix_is_internal:
  "store_IsLeader no_prefix_server \<and>
   Id join_empty_id = [] \<and>
   snd (snd (Join no_prefix_server join_empty_id)) =
     Returns (Inl (Errorf Internal ''failed to get ULA prefix: %v'' (Err ''key not found'')))"
  by (simp add: Join_def no_prefix_server_def join_server_def join_empty_id_def join_B_def
        resolve_ulaPrefix_def zero_Prefix_def Prefix_IsValid_def)

text \<open>
  C5, amended. For a Join request received by a leader whose id field is the empty string,
  the RPC returns \<open>InvalidArgument\<close> when the mesh IPv6 prefix is cached or its lazy
  resolution succeeds: the resolution precedes the validation of the inputs, and its failure
  yields \<open>Internal\<close>.
\<close>

theorem join_empty_id_code:
  assumes "store_IsLeader s" and "Id req = []"
  shows "\<exists>r. snd (snd (Join s req)) = Returns r \<and>
     result_code r =
       (if Prefix_IsValid (ulaPrefix s) \<or> snd (meshstate_GetULAPrefix s) = None
        then InvalidArgument else Internal)"
proof (cases s rule: resolve_cases)
  case cached
  then show ?thesis using assms
    by (simp add: Join_def validate_inputs_def result_code_def Error_def)
next
  case (fetched p)
  then show ?thesis using assms
    by (simp add: Join_def validate_inputs_def result_code_def Error_def)
next
  case (failed p err)
  then show ?thesis using assms
    by (simp add: Join_def result_code_def Errorf_def)
qed

theorem join_empty_id_code_witness:
  "store_IsLeader join_server \<and> Id join_empty_id = [] \<and>
   Prefix_IsValid (ulaPrefix join_server) \<and>
   (\<exists>r. snd (snd (Join join_server join_empty_id)) = Returns r \<and>
        result_code r = InvalidArgument) \<and>
   store_IsLeader no_prefix_server \<and>
   \<not> Prefix_IsValid (ulaPrefix no_prefix_server) \<and>
   snd (meshstate_GetULAPrefix no_prefix_server) \<noteq> None \<and>
   (\<exists>r. snd (snd (Join no_prefix_server join_empty_id)) = Returns r \<and>
        result_code r = Internal)"
proof -
  have h1: "store_IsLeader join_server" "store_IsLeader no_prefix_server"
    by (simp_all add: join_server_def no_prefix_server_def)
  have h2: "Id join_empty_id = []"
    by (simp add: join_empty_id_def)
  have p1: "Prefix_IsValid (ulaPrefix join_server)"
    by (simp add: join_server_def Prefix_IsValid_def prefix_fd00_def)
  have p2: "\<not> Prefix_IsValid (ulaPrefix no_prefix_server)"
    "snd (meshstate_GetULAPrefix no_prefix_server) \<noteq> None"
    by (simp_all add: no_prefix_server_def zero_Prefix_def Prefix_IsValid_def)
  show ?thesis
    using join_empty_id_code [OF h1(1) h2] join_empty_id_code [OF h1(2) h2] h1 h2 p1 p2
    by simp
qed

section \<open>Properties of DeleteNetworkACL\<close>

text \<open>
  C6, as stated, fails: a caller without the permission who asks a leader to delete the
  system-reserved \<open>bootstrap-nodes\<close> is answered \<open>PermissionDenied\<close>, not
  \<open>InvalidArgument\<close>; the authorization check comes before the check of the name.
\<close>

theorem system_acl_unauthorized_is_permission_denied:
  "Raft_IsLeader deny_all \<and>
   IsSystemNetworkACL deny_all ''bootstrap-nodes'' \<and>
   snd (DeleteNetworkACL deny_all ''bootstrap-nodes'') =
     Inl (Error PermissionDenied ''caller does not have permission to delete network acls'')"
  by (simp add: deny_all_def allow_all_def DeleteNetworkACL_def BootstrapNodesNetworkACLName_def)

text \<open>
  C6, amended. \<open>DeleteNetworkACL\<close> performs its checks in the order: leader check
  (\<open>FailedPrecondition\<close>), input validation (\<open>InvalidArgument\<close> on an empty name),
  authorization check (\<open>PermissionDenied\<close> on failure), rejection of system-reserved
  names (\<open>InvalidArgument\<close>), then the delegated mutation (\<open>Internal\<close> on a storage
  error). Deleting a system-reserved name never reaches the mutation: on a leader it
  returns \<open>InvalidArgument\<close> to an authorized caller and \<open>PermissionDenied\<close> to
  any other.
\<close>

theorem delete_network_acl_order:
  "result_code (snd (DeleteNetworkACL s name)) =
     (if \<not> Raft_IsLeader s then FailedPrecondition
      else if name = [] then InvalidArgument
      else if \<not> fst (rbacEval_Evaluate s deleteNetworkACLAction name) then PermissionDenied
      else if IsSystemNetworkACL s name then InvalidArgument
      else if networking_DeleteNetworkACL s name \<noteq> None then Internal
      else OK) \<and>
   (IsSystemNetworkACL s name \<longrightarrow>
      (\<forall>n. DeleteNetworkACL_call n \<notin> set (fst (DeleteNetworkACL s name))))"
  by (auto simp: DeleteNetworkACL_def result_code_def Error_def
           split: prod.splits option.splits)

theorem delete_network_acl_order_witness:
  "IsSystemNetworkACL allow_all ''bootstrap-nodes'' \<and>
   result_code (snd (DeleteNetworkACL allow_all ''bootstrap-nodes'')) = InvalidArgument \<and>
   result_code (snd (DeleteNetworkACL deny_all ''bootstrap-nodes'')) = PermissionDenied \<and>
   result_code (snd (DeleteNetworkACL allow_all ''foo'')) = OK \<and>
   (\<forall>n. DeleteNetworkACL_call n \<notin> set (fst (DeleteNetworkACL allow_all ''bootstrap-nodes'')))"
  using delete_network_acl_order [of allow_all "''bootstrap-nodes''"]
    delete_network_acl_order [of deny_all "''bootstrap-nodes''"]
    delete_network_acl_order [of allow_all "''foo''"]
  by (simp add: allow_all_def deny_all_def BootstrapNodesNetworkACLName_def)

section \<open>Properties of the camp fire\<close>

lemma New_result:
  assumes "snd (New env opts) = Inr cf"
  shows "\<exists>conn. cf = \<lparr>cf_PeerConnection = conn, cf_ReadWriteCloser = None,
     errc = make_chan 1, readyc = None, closec = make_chan 0\<rparr>"
  using assms
  by (auto simp: New_def Let_def split: sum.splits option.splits)

lemma New_camp_env: "snd (New camp_env camp_opts) = Inr camp_fire"
  by (simp add: New_def camp_env_def camp_opts_def camp_fire_def HasPrefix_def Let_def)

lemma New_close_fails: "snd (New close_fails camp_opts) = Inr camp_fire"
  by (simp add: New_def close_fails_def camp_env_def camp_opts_def camp_fire_def
        HasPrefix_def Let_def)

text \<open>
  C8, as stated, fails: where the close of the underlying peer connection fails,
  \<open>CampFire.Close\<close> still returns nil, and nothing is there to receive on the
  \<open>Errors()\<close> channel.
\<close>

theorem close_discards_failure:
  "env_PeerConnection_Close close_fails = Some (Err ''connection already closed'') \<and>
   snd (New close_fails camp_opts) = Inr camp_fire \<and>
   Close close_fails camp_fire = ([PeerConnection_Close_call], None) \<and>
   chan_recv (Errors camp_fire) = Blocks"
  using New_close_fails
  by (simp add: close_fails_def camp_env_def Close_def Errors_def camp_fire_def
        chan_recv_def make_chan_def)

text \<open>
  C8, amended. A failure to detach the data channel of a camp fire made by \<open>New\<close> is
  delivered on the \<open>Errors()\<close> channel; \<open>CampFire.Close\<close> closes the underlying peer
  connection and always returns nil, whatever that close returns.
\<close>

theorem campfire_errors:
  "snd (Close env cf) = None \<and>
   PeerConnection_Close_call \<in> set (fst (Close env cf)) \<and>
   (snd (New env0 opts) = Inr cf \<and> env_Detach env = Inl err \<longrightarrow>
      (\<exists>cf'. snd (onOpen env cf) = Done cf' \<and>
         chan_recv (Errors cf') = Done (Some err, make_chan 1)))"
proof (intro conjI impI)
  show "snd (Close env cf) = None" by (simp add: Close_def)
next
  show "PeerConnection_Close_call \<in> set (fst (Close env cf))" by (simp add: Close_def)
next
  assume a: "snd (New env0 opts) = Inr cf \<and> env_Detach env = Inl err"
  then obtain conn where cf: "cf = \<lparr>cf_PeerConnection = conn, cf_ReadWriteCloser = None,
     errc = make_chan 1, readyc = None, closec = make_chan 0\<rparr>"
    using New_result by blast
  show "\<exists>cf'. snd (onOpen env cf) = Done cf' \<and>
         chan_recv (Errors cf') = Done (Some err, make_chan 1)"
    using a by (simp add: cf onOpen_def chan_send_def make_chan_def chan_recv_def Errors_def)
qed

theorem campfire_errors_witness:
  "snd (New camp_env camp_opts) = Inr camp_fire \<and>
   env_Detach detach_fails = Inl (Err ''detach not enabled'') \<and>
   snd (Close detach_fails camp_fire) = None \<and>
   (\<exists>cf'. snd (onOpen detach_fails camp_fire) = Done cf' \<and>
      chan_recv (Errors cf') = Done (Some (Err ''detach not enabled''), make_chan 1))"
proof -
  have d: "env_Detach detach_fails = Inl (Err ''detach not enabled'')"
    by (simp add: detach_fails_def)
  show ?thesis
    using campfire_errors [of detach_fails camp_fire camp_env camp_opts
        "Err ''detach not enabled''"] New_camp_env d
    by simp
qed

text \<open>
  C10. A camp fire returned by \<open>New\<close> has \<open>errc\<close> and \<open>closec\<close> made and
  \<open>readyc\<close> nil: \<open>Ready()\<close> returns the nil channel, on which a receive blocks, and the
  handler of the data channel's opening, once the detach has succeeded, panics on closing
  a nil channel.
\<close>

theorem readyc_never_made:
  assumes "snd (New env opts) = Inr cf"
  shows "readyc cf = None \<and> errc cf = make_chan 1 \<and> closec cf = make_chan 0 \<and>
     Ready cf = None \<and> chan_recv (Ready cf) = Blocks \<and>
     (\<forall>env' rw. env_Detach env' = Inr rw \<longrightarrow>
        snd (onOpen env' cf) = Panics ''close of nil channel'')"
proof -
  from New_result [OF assms] obtain conn where
    cf: "cf = \<lparr>cf_PeerConnection = conn, cf_ReadWriteCloser = None,
     errc = make_chan 1, readyc = None, closec = make_chan 0\<rparr>" by blast
  show ?thesis
    by (simp add: cf Ready_def chan_recv_def onOpen_def chan_close_def make_chan_def)
qed

theorem readyc_never_made_witness:
  "snd (New camp_env camp_opts) = Inr camp_fire \<and>
   env_Detach camp_env = Inr 1 \<and>
   Ready camp_fire = None \<and>
   chan_recv (Ready camp_fire) = Blocks \<and>
   snd (onOpen camp_env camp_fire) = Panics ''close of nil channel''"
proof -
  have d: "env_Detach camp_env = Inr 1"
    by (simp add: camp_env_def)
  show ?thesis
    using readyc_never_made [OF New_camp_env] New_camp_env d by blast
qed

text \<open>
  C9. \<open>FindCampFire\<close> depends on the time only through the epoch: for every pre-shared
  key and relay list, two calls at times of the same epoch return the same location,
  whoever makes them.
\<close>

theorem find_camp_fire_epoch:
  assumes "epoch_of epochLength t1 = epoch_of epochLength t2"
  shows "FindCampFire hash epochLength t1 psk relays =
         FindCampFire hash epochLength t2 psk relays"
  using assms by (simp add: FindCampFire_def)

theorem find_camp_fire_epoch_witness:
  "epoch_of 3600 7200 = epoch_of 3600 10799 \<and>
   FindCampFire toy_hash 3600 7200 (PSK camp_opts) two_relays =
     Inr \<lparr>TURNServer = ''turn://r2'', Secret = ''157''\<rparr> \<and>
   FindCampFire toy_hash 3600 10799 (PSK camp_opts) two_relays =
     Inr \<lparr>TURNServer = ''turn://r2'', Secret = ''157''\<rparr>"
proof -
  have e: "epoch_of 3600 7200 = epoch_of 3600 10799"
    by (simp add: epoch_of_def)
  have v: "FindCampFire toy_hash 3600 7200 (PSK camp_opts) two_relays =
     Inr \<lparr>TURNServer = ''turn://r2'', Secret = ''157''\<rparr>"
    by code_simp
  show ?thesis
    using find_camp_fire_epoch [OF e, of toy_hash "PSK camp_opts" two_relays] e v
    by simp
qed

end
